theory Spec2Isabelle
  imports Main
begin

section \<open>Undirected graphs: adjacency lists and adjacency matrix\<close>

text \<open>
  A shallow embedding of \<^verbatim>\<open>week01_undirectedgraphs.py\<close>: the edge-list reader
  \<^verbatim>\<open>read_array_of_edges\<close>, the class \<^verbatim>\<open>Graph\<close> (adjacency lists) and its subclass
  \<^verbatim>\<open>AdjMatrixGraph\<close> (a boolean matrix). Python integers are \<^typ>\<open>int\<close>. An object is
  a record of its attributes; a method that mutates the object returns the outcome (an
  exception or \<^verbatim>\<open>None\<close>) together with the object as the call leaves it, so that what
  an exception leaves behind is part of the model. Methods that only read return the
  outcome alone.
\<close>

subsection \<open>Exceptions\<close>

text \<open>
  Every exception the source raises itself is a \<^verbatim>\<open>ValueError\<close>; the constructors of
  \<open>value_error\<close> tell the raise sites (and so the messages) apart:
  \<^item> \<open>NegativeCount\<close>: \<^verbatim>\<open>ValueError("Number of vertices must be non negative")\<close>, raised
    by the reader for a negative vertex count and, with the same message, for a negative
    edge count;
  \<^item> \<open>VertexNotBetween v hi\<close>: \<^verbatim>\<open>ValueError(f"Vertex {v} is not between 0 and {self.V-1}")\<close>;
  \<^item> \<open>InvalidLiteral s\<close>: what \<^verbatim>\<open>int(s)\<close> raises on a string that is no integer literal;
  \<^item> \<open>NotEnoughValues k\<close>, \<open>TooManyValues\<close>: what the unpacking \<^verbatim>\<open>v, w = ...\<close> raises
    when the line has k < 2 tokens, or more than two;
  \<^item> \<open>NegativeDimensions\<close>: what \<^verbatim>\<open>np.zeros\<close> raises on a negative dimension.
  \<open>IndexError\<close> is what indexing a list or an array out of range raises.
\<close>

datatype value_error =
    NegativeCount
  | VertexNotBetween int int
  | InvalidLiteral string
  | NotEnoughValues nat
  | TooManyValues
  | NegativeDimensions

datatype error = ValueError value_error | IndexError

subsection \<open>Python built-ins used by the source\<close>

text \<open>\<^verbatim>\<open>range(n)\<close>: the integers 0, ..., n - 1, none when n is not positive.\<close>

definition py_range :: "int \<Rightarrow> int list" where
  "py_range n = map int [0..<nat n]"

text \<open>
  \<^verbatim>\<open>xs[i]\<close> on a list or an array of n items reads position i for i in \<open>[0, n)\<close> and
  position n + i for i in \<open>[-n, 0)\<close>; any other index raises \<^verbatim>\<open>IndexError\<close>. The result
  is the position read.
\<close>

definition py_index :: "'a list \<Rightarrow> int \<Rightarrow> error + nat" where
  "py_index xs i =
     (if 0 \<le> i \<and> i < int (length xs) then Inr (nat i)
      else if - int (length xs) \<le> i \<and> i < 0 then Inr (nat (int (length xs) + i))
      else Inl IndexError)"

subsection \<open>The graph object\<close>

text \<open>
  The attributes \<^verbatim>\<open>V\<close>, \<^verbatim>\<open>E\<close> and \<^verbatim>\<open>_adj\<close>. The subclass keeps the attributes and stores
  a matrix in \<^verbatim>\<open>_adj\<close>, so the record is polymorphic in the adjacency storage.
\<close>

record 'a graph =
  V :: int
  E :: int
  adj :: 'a

type_synonym list_graph = "int list list graph"
type_synonym matrix_graph = "bool list list graph"

text \<open>
  \<^verbatim>\<open>Graph.__init__\<close>: the loop \<^verbatim>\<open>for _ in range(self.V): self._adj.append([])\<close>, then the
  constructor. It has no \<^verbatim>\<open>raise\<close> and checks nothing (a negative \<^verbatim>\<open>V\<close> gives an empty
  range); its result is of the type of \<^verbatim>\<open>cls(V)\<close> in \<^verbatim>\<open>load\<close>, where the subclass can
  raise.
\<close>

fun append_empty_lists :: "int list \<Rightarrow> int list list \<Rightarrow> int list list" where
  "append_empty_lists [] a = a"
| "append_empty_lists (_ # r) a = append_empty_lists r (a @ [[]])"

definition Graph_init :: "int \<Rightarrow> error + list_graph" where
  "Graph_init n = Inr \<lparr>V = n, E = 0, adj = append_empty_lists (py_range n) []\<rparr>"

text \<open>
  \<^verbatim>\<open>np.zeros((n, n), dtype=bool)\<close>: numpy raises \<^verbatim>\<open>ValueError\<close> ("negative dimensions are
  not allowed") for a negative n, and gives n rows of n cells \<^verbatim>\<open>False\<close> otherwise.
\<close>

definition np_zeros_bool :: "int \<Rightarrow> error + bool list list" where
  "np_zeros_bool n =
     (if n < 0 then Inl (ValueError NegativeDimensions)
      else Inr (replicate (nat n) (replicate (nat n) False)))"

text \<open>
  \<^verbatim>\<open>AdjMatrixGraph.__init__\<close>: \<^verbatim>\<open>super().__init__(V)\<close>, then \<^verbatim>\<open>_adj\<close> is replaced by the
  matrix.
\<close>

definition AdjMatrixGraph_init :: "int \<Rightarrow> error + matrix_graph" where
  "AdjMatrixGraph_init n =
     (case Graph_init n of
        Inl e \<Rightarrow> Inl e
      | Inr g \<Rightarrow>
          (case np_zeros_bool n of
             Inl e \<Rightarrow> Inl e
           | Inr m \<Rightarrow> Inr \<lparr>V = V g, E = E g, adj = m\<rparr>))"

text \<open>\<^verbatim>\<open>validate_vertex\<close>, inherited unchanged by the subclass.\<close>

definition validate_vertex :: "'a graph \<Rightarrow> int \<Rightarrow> error + unit" where
  "validate_vertex g v =
     (if v < 0 \<or> v \<ge> V g then Inl (ValueError (VertexNotBetween v (V g - 1)))
      else Inr ())"

text \<open>
  The setter of the property \<^verbatim>\<open>adj\<close>. In \<^verbatim>\<open>Graph\<close>:
  \<^verbatim>\<open>self._adj[edge[0]].append(edge[1])\<close>; in \<^verbatim>\<open>AdjMatrixGraph\<close>:
  \<^verbatim>\<open>self._adj[edge[0]][edge[1]] = True\<close>.
\<close>

definition Graph_adj_setter :: "list_graph \<Rightarrow> int \<times> int \<Rightarrow> (error + unit) \<times> list_graph" where
  "Graph_adj_setter g edge =
     (case py_index (adj g) (fst edge) of
        Inl e \<Rightarrow> (Inl e, g)
      | Inr i \<Rightarrow> (Inr (), g\<lparr>adj := (adj g)[i := adj g ! i @ [snd edge]]\<rparr>))"

definition AdjMatrixGraph_adj_setter ::
  "matrix_graph \<Rightarrow> int \<times> int \<Rightarrow> (error + unit) \<times> matrix_graph" where
  "AdjMatrixGraph_adj_setter g edge =
     (case py_index (adj g) (fst edge) of
        Inl e \<Rightarrow> (Inl e, g)
      | Inr i \<Rightarrow>
          (case py_index (adj g ! i) (snd edge) of
             Inl e \<Rightarrow> (Inl e, g)
           | Inr j \<Rightarrow> (Inr (), g\<lparr>adj := (adj g)[i := (adj g ! i)[j := True]]\<rparr>)))"

text \<open>
  \<^verbatim>\<open>add_edge\<close> is written once, in \<^verbatim>\<open>Graph\<close>; the assignments \<^verbatim>\<open>self.adj = (w, v)\<close> and
  \<^verbatim>\<open>self.adj = (v, w)\<close> run the setter of the object's own class, which is the
  parameter \<open>setter\<close> here.
\<close>

definition add_edge ::
  "('a graph \<Rightarrow> int \<times> int \<Rightarrow> (error + unit) \<times> 'a graph) \<Rightarrow>
   'a graph \<Rightarrow> int \<Rightarrow> int \<Rightarrow> (error + unit) \<times> 'a graph" where
  "add_edge setter g v w =
     (case validate_vertex g v of
        Inl e \<Rightarrow> (Inl e, g)
      | Inr _ \<Rightarrow>
          (case validate_vertex g w of
             Inl e \<Rightarrow> (Inl e, g)
           | Inr _ \<Rightarrow>
               (let g1 = g\<lparr>E := E g + 1\<rparr>
                in case (if v \<noteq> w then setter g1 (w, v) else (Inr (), g1)) of
                     (Inl e, g2) \<Rightarrow> (Inl e, g2)
                   | (Inr _, g2) \<Rightarrow> setter g2 (v, w))))"

definition Graph_add_edge :: "list_graph \<Rightarrow> int \<Rightarrow> int \<Rightarrow> (error + unit) \<times> list_graph" where
  "Graph_add_edge = add_edge Graph_adj_setter"

definition AdjMatrixGraph_add_edge ::
  "matrix_graph \<Rightarrow> int \<Rightarrow> int \<Rightarrow> (error + unit) \<times> matrix_graph" where
  "AdjMatrixGraph_add_edge = add_edge AdjMatrixGraph_adj_setter"

text \<open>
  \<^verbatim>\<open>degree\<close>: \<^verbatim>\<open>len(self.adj[v])\<close> in \<^verbatim>\<open>Graph\<close>, \<^verbatim>\<open>self.adj[v].sum()\<close> (the number of cells
  \<^verbatim>\<open>True\<close> in row v) in \<^verbatim>\<open>AdjMatrixGraph\<close>.
\<close>

definition Graph_degree :: "list_graph \<Rightarrow> int \<Rightarrow> error + int" where
  "Graph_degree g v =
     (case validate_vertex g v of
        Inl e \<Rightarrow> Inl e
      | Inr _ \<Rightarrow>
          (case py_index (adj g) v of
             Inl e \<Rightarrow> Inl e
           | Inr i \<Rightarrow> Inr (int (length (adj g ! i)))))"

definition AdjMatrixGraph_degree :: "matrix_graph \<Rightarrow> int \<Rightarrow> error + int" where
  "AdjMatrixGraph_degree g v =
     (case validate_vertex g v of
        Inl e \<Rightarrow> Inl e
      | Inr _ \<Rightarrow>
          (case py_index (adj g) v of
             Inl e \<Rightarrow> Inl e
           | Inr i \<Rightarrow> Inr (int (length (filter (\<lambda>b. b) (adj g ! i))))))"

text \<open>
  \<^verbatim>\<open>max_degree\<close>, written once in \<^verbatim>\<open>Graph\<close>; \<^verbatim>\<open>self.degree(v)\<close> is the object's own
  \<^verbatim>\<open>degree\<close>, the parameter \<open>deg\<close>. The loop carries the local \<^verbatim>\<open>max\<close>.
\<close>

fun max_degree_loop :: "('a graph \<Rightarrow> int \<Rightarrow> error + int) \<Rightarrow> 'a graph \<Rightarrow> int list \<Rightarrow> int \<Rightarrow> error + int" where
  "max_degree_loop deg g [] mx = Inr mx"
| "max_degree_loop deg g (v # r) mx =
     (case deg g v of
        Inl e \<Rightarrow> Inl e
      | Inr degree \<Rightarrow> max_degree_loop deg g r (if degree > mx then degree else mx))"

definition max_degree :: "('a graph \<Rightarrow> int \<Rightarrow> error + int) \<Rightarrow> 'a graph \<Rightarrow> error + int" where
  "max_degree deg g = max_degree_loop deg g (py_range (V g)) 0"

definition Graph_max_degree :: "list_graph \<Rightarrow> error + int" where
  "Graph_max_degree = max_degree Graph_degree"

definition AdjMatrixGraph_max_degree :: "matrix_graph \<Rightarrow> error + int" where
  "AdjMatrixGraph_max_degree = max_degree AdjMatrixGraph_degree"

text \<open>
  \<^verbatim>\<open>self_loops\<close>. In \<^verbatim>\<open>Graph\<close> the inner loop runs over the entries of \<^verbatim>\<open>self.adj[v]\<close> and
  counts those equal to v; in \<^verbatim>\<open>AdjMatrixGraph\<close> the diagonal cell \<^verbatim>\<open>self.adj[v][v]\<close> is
  read.
\<close>

fun count_self :: "int \<Rightarrow> int list \<Rightarrow> int \<Rightarrow> int" where
  "count_self v [] count = count"
| "count_self v (w # r) count = count_self v r (if v = w then count + 1 else count)"

fun Graph_self_loops_loop :: "list_graph \<Rightarrow> int list \<Rightarrow> int \<Rightarrow> error + int" where
  "Graph_self_loops_loop g [] count = Inr count"
| "Graph_self_loops_loop g (v # r) count =
     (case py_index (adj g) v of
        Inl e \<Rightarrow> Inl e
      | Inr i \<Rightarrow> Graph_self_loops_loop g r (count_self v (adj g ! i) count))"

definition Graph_self_loops :: "list_graph \<Rightarrow> error + int" where
  "Graph_self_loops g = Graph_self_loops_loop g (py_range (V g)) 0"

fun AdjMatrixGraph_self_loops_loop :: "matrix_graph \<Rightarrow> int list \<Rightarrow> int \<Rightarrow> error + int" where
  "AdjMatrixGraph_self_loops_loop g [] count = Inr count"
| "AdjMatrixGraph_self_loops_loop g (v # r) count =
     (case py_index (adj g) v of
        Inl e \<Rightarrow> Inl e
      | Inr i \<Rightarrow>
          (case py_index (adj g ! i) v of
             Inl e \<Rightarrow> Inl e
           | Inr j \<Rightarrow>
               AdjMatrixGraph_self_loops_loop g r (if adj g ! i ! j then count + 1 else count)))"

definition AdjMatrixGraph_self_loops :: "matrix_graph \<Rightarrow> error + int" where
  "AdjMatrixGraph_self_loops g = AdjMatrixGraph_self_loops_loop g (py_range (V g)) 0"

subsection \<open>Reading text: \<^verbatim>\<open>readline\<close>, \<^verbatim>\<open>split\<close>, \<^verbatim>\<open>int\<close>\<close>

text \<open>
  The open file is the text that is still unread, as Python's text layer delivers it
  (decoded, line ends translated to \<^verbatim>\<open>\n\<close>); the model covers ASCII text.
  \<^verbatim>\<open>f.readline()\<close> returns the next line with its \<^verbatim>\<open>\n\<close>, or what is left when no
  \<^verbatim>\<open>\n\<close> follows, which is the empty string at the end of the file.
\<close>

fun readline :: "string \<Rightarrow> string \<times> string" where
  "readline [] = ([], [])"
| "readline (c # cs) =
     (if c = CHR 0x0A then ([c], cs)
      else (case readline cs of (l, r) \<Rightarrow> (c # l, r)))"

text \<open>
  White space. \<^verbatim>\<open>str.split\<close> separates at the characters \<^verbatim>\<open>str.isspace\<close> accepts; among
  ASCII these are tab, line feed, vertical tab, form feed, carriage return, the four
  separators 0x1C to 0x1F, and the space. \<^verbatim>\<open>int\<close> skips, at both ends of an ASCII string,
  the white space of the C locale only: the same characters without the four separators.
\<close>

definition is_space :: "char \<Rightarrow> bool" where
  "is_space c = (let n = (of_char c :: nat) in (9 \<le> n \<and> n \<le> 13) \<or> (28 \<le> n \<and> n \<le> 32))"

definition is_c_space :: "char \<Rightarrow> bool" where
  "is_c_space c = (let n = (of_char c :: nat) in (9 \<le> n \<and> n \<le> 13) \<or> n = 32)"

definition is_digit :: "char \<Rightarrow> bool" where
  "is_digit c = (let n = (of_char c :: nat) in 48 \<le> n \<and> n \<le> 57)"

definition digit_val :: "char \<Rightarrow> int" where
  "digit_val c = int (of_char c) - 48"

text \<open>\<^verbatim>\<open>s.split()\<close>: the maximal runs of characters that are not white space.\<close>

fun split_from :: "string \<Rightarrow> string \<Rightarrow> string list" where
  "split_from [] cur = (if cur = [] then [] else [cur])"
| "split_from (c # cs) cur =
     (if is_space c then (if cur = [] then split_from cs [] else cur # split_from cs [])
      else split_from cs (cur @ [c]))"

definition py_split :: "string \<Rightarrow> string list" where
  "py_split s = split_from s []"

text \<open>
  \<^verbatim>\<open>int(s)\<close> in base 10: white space is stripped at both ends, then an optional sign,
  then digits, where a single underscore may stand between two digits. Anything else
  raises \<^verbatim>\<open>ValueError\<close> (invalid literal). The interpreter's limit on the number of
  digits of a literal is not modelled.
\<close>

fun more_digits :: "string \<Rightarrow> int \<Rightarrow> int option" where
  "more_digits [] acc = Some acc"
| "more_digits (c # cs) acc =
     (if is_digit c then more_digits cs (acc * 10 + digit_val c)
      else if c = CHR ''_'' then
        (case cs of
           [] \<Rightarrow> None
         | d # ds \<Rightarrow> if is_digit d then more_digits ds (acc * 10 + digit_val d) else None)
      else None)"

definition digits :: "string \<Rightarrow> int option" where
  "digits s =
     (case s of
        [] \<Rightarrow> None
      | c # cs \<Rightarrow> if is_digit c then more_digits cs (digit_val c) else None)"

definition strip :: "string \<Rightarrow> string" where
  "strip s = rev (dropWhile is_c_space (rev (dropWhile is_c_space s)))"

definition py_int :: "string \<Rightarrow> error + int" where
  "py_int s =
     (let r =
        (case strip s of
           [] \<Rightarrow> None
         | c # cs \<Rightarrow>
             if c = CHR ''-'' then map_option uminus (digits cs)
             else if c = CHR ''+'' then digits cs
             else digits (c # cs))
      in case r of None \<Rightarrow> Inl (ValueError (InvalidLiteral s)) | Some n \<Rightarrow> Inr n)"

subsection \<open>The edge-list reader\<close>

text \<open>
  \<^verbatim>\<open>v, w = map(int, f.readline().split())\<close>: the unpacking draws from the lazy \<^verbatim>\<open>map\<close>, so
  \<^verbatim>\<open>int\<close> runs on one token at a time, and on a third token before the unpacking
  complains that there are too many values.
\<close>

definition unpack_edge :: "string list \<Rightarrow> error + (int \<times> int)" where
  "unpack_edge toks =
     (case toks of
        [] \<Rightarrow> Inl (ValueError (NotEnoughValues 0))
      | a # r1 \<Rightarrow>
          (case py_int a of
             Inl e \<Rightarrow> Inl e
           | Inr v \<Rightarrow>
               (case r1 of
                  [] \<Rightarrow> Inl (ValueError (NotEnoughValues 1))
                | b # r2 \<Rightarrow>
                    (case py_int b of
                       Inl e \<Rightarrow> Inl e
                     | Inr w \<Rightarrow>
                         (case r2 of
                            [] \<Rightarrow> Inr (v, w)
                          | c # _ \<Rightarrow>
                              (case py_int c of
                                 Inl e \<Rightarrow> Inl e
                               | Inr _ \<Rightarrow> Inl (ValueError TooManyValues)))))))"

text \<open>The loop \<^verbatim>\<open>for _ in range(E)\<close> of the reader, on the unread text and \<^verbatim>\<open>edges\<close>.\<close>

fun read_edges :: "int list \<Rightarrow> string \<Rightarrow> (int \<times> int) list \<Rightarrow> error + (int \<times> int) list" where
  "read_edges [] f edges = Inr edges"
| "read_edges (_ # r) f edges =
     (case readline f of
        (line, f') \<Rightarrow>
          (case unpack_edge (py_split line) of
             Inl e \<Rightarrow> Inl e
           | Inr vw \<Rightarrow> read_edges r f' (edges @ [vw])))"

definition read_array_of_edges :: "string \<Rightarrow> error + ((int \<times> int) list \<times> int)" where
  "read_array_of_edges f0 =
     (case readline f0 of
        (l1, f1) \<Rightarrow>
          (case py_int l1 of
             Inl e \<Rightarrow> Inl e
           | Inr nv \<Rightarrow>
               if nv < 0 then Inl (ValueError NegativeCount)
               else
                 (case readline f1 of
                    (l2, f2) \<Rightarrow>
                      (case py_int l2 of
                         Inl e \<Rightarrow> Inl e
                       | Inr ne \<Rightarrow>
                           if ne < 0 then Inl (ValueError NegativeCount)
                           else
                             (case read_edges (py_range ne) f2 [] of
                                Inl e \<Rightarrow> Inl e
                              | Inr edges \<Rightarrow> Inr (edges, nv))))))"

subsection \<open>\<^verbatim>\<open>load\<close>\<close>

text \<open>
  The class method \<^verbatim>\<open>load\<close> has the same body in both classes: read the file, construct
  \<^verbatim>\<open>cls(V)\<close>, then \<^verbatim>\<open>for edge in edges: g.add_edge(edge[0], edge[1])\<close>. An exception ends
  the call, and the graph under construction is lost with it.
\<close>

fun add_edges ::
  "('a graph \<Rightarrow> int \<Rightarrow> int \<Rightarrow> (error + unit) \<times> 'a graph) \<Rightarrow>
   'a graph \<Rightarrow> (int \<times> int) list \<Rightarrow> (error + unit) \<times> 'a graph" where
  "add_edges adder g [] = (Inr (), g)"
| "add_edges adder g (edge # r) =
     (case adder g (fst edge) (snd edge) of
        (Inl e, g') \<Rightarrow> (Inl e, g')
      | (Inr _, g') \<Rightarrow> add_edges adder g' r)"

definition load ::
  "(int \<Rightarrow> error + 'a graph) \<Rightarrow> ('a graph \<Rightarrow> int \<Rightarrow> int \<Rightarrow> (error + unit) \<times> 'a graph) \<Rightarrow>
   string \<Rightarrow> error + 'a graph" where
  "load cls adder f =
     (case read_array_of_edges f of
        Inl e \<Rightarrow> Inl e
      | Inr (edges, nv) \<Rightarrow>
          (case cls nv of
             Inl e \<Rightarrow> Inl e
           | Inr g \<Rightarrow>
               (case add_edges adder g edges of
                  (Inl e, _) \<Rightarrow> Inl e
                | (Inr _, g') \<Rightarrow> Inr g')))"

definition Graph_load :: "string \<Rightarrow> error + list_graph" where
  "Graph_load = load Graph_init Graph_add_edge"

definition AdjMatrixGraph_load :: "string \<Rightarrow> error + matrix_graph" where
  "AdjMatrixGraph_load = load AdjMatrixGraph_init AdjMatrixGraph_add_edge"

subsection \<open>Vocabulary of the statements\<close>

text \<open>
  The definitions of this subsection are not code of the program: they name what the
  theorems below say about it.

  \<open>set_cell a i j\<close> is the matrix a with cell (i, j) set; \<open>mark_edge a v w\<close> is what
  \<^verbatim>\<open>add_edge(v, w)\<close> makes of the matrix: cells (w, v) and (v, w) set for distinct ends, cell
  (v, v) for a self-loop. A matrix graph is \<open>square\<close> when \<^verbatim>\<open>_adj\<close> has \<^verbatim>\<open>V\<close> rows of
  \<^verbatim>\<open>V\<close> cells, as \<^verbatim>\<open>np.zeros((V, V))\<close> makes it.
\<close>

definition set_cell :: "bool list list \<Rightarrow> nat \<Rightarrow> nat \<Rightarrow> bool list list" where
  "set_cell a i j = a[i := (a ! i)[j := True]]"

definition mark_edge :: "bool list list \<Rightarrow> int \<Rightarrow> int \<Rightarrow> bool list list" where
  "mark_edge a v w =
     set_cell (if v \<noteq> w then set_cell a (nat w) (nat v) else a) (nat v) (nat w)"

definition square :: "matrix_graph \<Rightarrow> bool" where
  "square m = (length (adj m) = nat (V m) \<and> (\<forall>row \<in> set (adj m). length row = nat (V m)))"
text \<open>
  \<open>entries_valid g\<close>: every entry of every adjacency list is a vertex of g.
  \<open>in_range n e\<close>: both ends of the pair e are vertices of a graph with n vertices.
  \<open>incident u e\<close>: what the call \<^verbatim>\<open>add_edge\<close> for the pair e appends to the list of
  vertex u. \<open>loops a\<close>: the number of entries of the lists of a that equal the index of
  their list.
\<close>

definition entries_valid :: "list_graph \<Rightarrow> bool" where
  "entries_valid g = (\<forall>l \<in> set (adj g). \<forall>x \<in> set l. 0 \<le> x \<and> x < V g)"

definition in_range :: "int \<Rightarrow> int \<times> int \<Rightarrow> bool" where
  "in_range n e = (0 \<le> fst e \<and> fst e < n \<and> 0 \<le> snd e \<and> snd e < n)"

definition incident :: "int \<Rightarrow> int \<times> int \<Rightarrow> int list" where
  "incident u e = (if u = fst e then [snd e] else if u = snd e then [fst e] else [])"

definition loops :: "int list list \<Rightarrow> nat" where
  "loops a = (\<Sum>u < length a. count_list (a ! u) (int u))"
text \<open>
  \<open>nth_line f k\<close> is what the (k+1)-th call of \<^verbatim>\<open>readline\<close> returns on the text f.
  The specification sorts failures into kinds; the source raises \<^verbatim>\<open>ValueError\<close> for
  all of them, and the kinds are told apart by the raise site: \<open>InvalidFormat\<close> is the
  reader's own \<^verbatim>\<open>raise\<close> for a negative count, \<open>ParseError\<close> is what \<^verbatim>\<open>int\<close> and the
  unpacking of a line raise.
\<close>

definition nth_line :: "string \<Rightarrow> nat \<Rightarrow> string" where
  "nth_line f k = fst (readline (((snd \<circ> readline) ^^ k) f))"

fun InvalidFormat :: "error \<Rightarrow> bool" where
  "InvalidFormat (ValueError NegativeCount) = True"
| "InvalidFormat _ = False"

fun ParseError :: "error \<Rightarrow> bool" where
  "ParseError (ValueError (InvalidLiteral _)) = True"
| "ParseError (ValueError (NotEnoughValues _)) = True"
| "ParseError (ValueError TooManyValues) = True"
| "ParseError _ = False"

section \<open>Properties\<close>

subsection \<open>Indexing, ranges and the constructors\<close>

lemma py_index_in_range: "0 \<le> i \<Longrightarrow> i < int (length xs) \<Longrightarrow> py_index xs i = Inr (nat i)"
  by (simp add: py_index_def Let_def)

lemma py_index_Inr: "py_index xs i = Inr j \<Longrightarrow> j < length xs"
  by (auto simp: py_index_def split: if_splits)

lemma set_py_range: "set (py_range n) = {v. 0 \<le> v \<and> v < n}"
proof -
  have "x \<in> int ` {0..<nat n} \<longleftrightarrow> 0 \<le> x \<and> x < n" for x
  proof
    assume "x \<in> int ` {0..<nat n}"
    then show "0 \<le> x \<and> x < n" by auto
  next
    assume h: "0 \<le> x \<and> x < n"
    then have "nat x \<in> {0..<nat n}" by auto
    moreover have "x = int (nat x)" using h by simp
    ultimately show "x \<in> int ` {0..<nat n}" by (rule_tac image_eqI)
  qed
  then show ?thesis by (auto simp: py_range_def)
qed

lemma length_py_range [simp]: "length (py_range n) = nat n"
  by (simp add: py_range_def)

lemma finite_vertices: "finite {v :: int. 0 \<le> v \<and> v < n}"
  using finite_set [of "py_range n"] by (simp only: set_py_range)

lemma append_empty_lists_eq: "append_empty_lists r a = a @ replicate (length r) []"
  by (induction r arbitrary: a) (simp_all add: replicate_append_same)

lemma Graph_init_eq: "Graph_init n = Inr \<lparr>V = n, E = 0, adj = replicate (nat n) []\<rparr>"
  by (simp add: Graph_init_def append_empty_lists_eq py_range_def)

lemma validate_vertex_ok: "0 \<le> v \<Longrightarrow> v < V g \<Longrightarrow> validate_vertex g v = Inr ()"
  by (simp add: validate_vertex_def)

lemma AdjMatrixGraph_init_eq:
  "0 \<le> n \<Longrightarrow> AdjMatrixGraph_init n =
     Inr \<lparr>V = n, E = 0, adj = replicate (nat n) (replicate (nat n) False)\<rparr>"
  by (simp add: AdjMatrixGraph_init_def Graph_init_def np_zeros_bool_def)

lemma AdjMatrixGraph_init_Inr:
  assumes "AdjMatrixGraph_init n = Inr m"
  shows "0 \<le> n \<and> m = \<lparr>V = n, E = 0, adj = replicate (nat n) (replicate (nat n) False)\<rparr>"
proof (cases "0 \<le> n")
  case True
  then show ?thesis using assms by (simp add: AdjMatrixGraph_init_eq)
next
  case False
  then show ?thesis using assms
    by (simp add: AdjMatrixGraph_init_def Graph_init_def np_zeros_bool_def)
qed
subsection \<open>Inserting an edge: adjacency lists\<close>

text \<open>
  On a graph whose \<^verbatim>\<open>_adj\<close> has \<^verbatim>\<open>V\<close> lists, as the constructor makes it and
  \<^verbatim>\<open>add_edge\<close> keeps it, a call with both ends in range runs to its end; this is the
  object it leaves.
\<close>

lemma Graph_add_edge_in_range:
  assumes wf: "length (adj g) = nat (V g)"
    and v: "0 \<le> v" "v < V g" and w: "0 \<le> w" "w < V g"
  shows "Graph_add_edge g v w =
     (Inr (), g\<lparr>E := E g + 1,
              adj := (if v \<noteq> w then (adj g)[nat w := adj g ! nat w @ [v]] else adj g)
                       [nat v := (if v \<noteq> w then (adj g)[nat w := adj g ! nat w @ [v]] else adj g) ! nat v @ [w]]\<rparr>)"
proof -
  have iv: "py_index (adj g) v = Inr (nat v)" and iw: "py_index (adj g) w = Inr (nat w)"
    using wf v w by (simp_all add: py_index_in_range)
  have iv': "py_index ((adj g)[nat w := adj g ! nat w @ [v]]) v = Inr (nat v)"
    using wf v w by (simp add: py_index_in_range)
  show ?thesis
    using v w
    by (simp add: Graph_add_edge_def add_edge_def validate_vertex_ok Graph_adj_setter_def iv iw iv')
qed
text \<open>
  Claim C1. For the list variant, \<^verbatim>\<open>add_edge(v, w)\<close> with v and w in \<open>[0, V)\<close> succeeds
  and increments \<^verbatim>\<open>E\<close> by exactly 1. If v and w differ, v is appended to the list of w
  and w to the list of v; if they are equal, v is appended once to its own list. No other
  list changes, and \<^verbatim>\<open>V\<close> and the number of lists stay as they were.
\<close>

theorem Graph_add_edge_appends:
  assumes wf: "length (adj g) = nat (V g)"
    and v: "0 \<le> v" "v < V g" and w: "0 \<le> w" "w < V g"
  shows "\<exists>g'. Graph_add_edge g v w = (Inr (), g') \<and> E g' = E g + 1 \<and> V g' = V g \<and>
           length (adj g') = length (adj g) \<and>
           (v \<noteq> w \<longrightarrow> adj g' ! nat w = adj g ! nat w @ [v] \<and> adj g' ! nat v = adj g ! nat v @ [w]) \<and>
           (v = w \<longrightarrow> adj g' ! nat v = adj g ! nat v @ [v]) \<and>
           (\<forall>u. u < length (adj g) \<and> u \<noteq> nat v \<and> u \<noteq> nat w \<longrightarrow> adj g' ! u = adj g ! u)"
proof -
  have nv: "nat v < length (adj g)" and nw: "nat w < length (adj g)"
    using wf v w by simp_all
  have ne: "v \<noteq> w \<Longrightarrow> nat v \<noteq> nat w" using v w by simp
  show ?thesis
    unfolding Graph_add_edge_in_range [OF wf v w]
    using nv nw ne by (cases "v = w") (auto simp: nth_list_update)
qed
theorem Graph_add_edge_appends_witness:
  "length (adj \<lparr>V = 3, E = 0, adj = [[], [2], [1 :: int]]\<rparr>) = nat (V \<lparr>V = 3, E = 0, adj = [[], [2], [1 :: int]]\<rparr>) \<and>
   (\<exists>g'. Graph_add_edge \<lparr>V = 3, E = 0, adj = [[], [2], [1]]\<rparr> 0 1 = (Inr (), g') \<and>
         E g' = 1 \<and> V g' = 3 \<and> adj g' ! 1 = [2, 0] \<and> adj g' ! 0 = [1] \<and> adj g' ! 2 = [1]) \<and>
   (\<exists>g'. Graph_add_edge \<lparr>V = 3, E = 0, adj = [[], [2], [1]]\<rparr> 1 1 = (Inr (), g') \<and>
         E g' = 1 \<and> V g' = 3 \<and> adj g' ! 1 = [2, 1] \<and> adj g' ! 0 = [] \<and> adj g' ! 2 = [1])"
  using Graph_add_edge_appends [of "\<lparr>V = 3, E = 0, adj = [[], [2], [1]]\<rparr>" 0 1]
    Graph_add_edge_appends [of "\<lparr>V = 3, E = 0, adj = [[], [2], [1]]\<rparr>" 1 1]
  by auto

subsection \<open>Inserting an edge: a vertex out of range\<close>

lemma add_edge_invalid:
  assumes "\<not> in_range (V g) (v, w)"
  shows "add_edge setter g v w =
           (Inl (ValueError (VertexNotBetween (if v < 0 \<or> V g \<le> v then v else w) (V g - 1))), g)"
  using assms by (auto simp: add_edge_def validate_vertex_def in_range_def)

lemma add_edge_rejects:
  assumes "\<not> in_range (V g) (v, w)"
  shows "\<exists>x. fst (add_edge setter g v w) = Inl (ValueError (VertexNotBetween x (V g - 1))) \<and>
             (x = v \<or> x = w) \<and> (x < 0 \<or> V g \<le> x)"
  using assms by (auto simp: add_edge_def validate_vertex_def in_range_def)
text \<open>
  Claim C2. In both variants, \<^verbatim>\<open>add_edge(v, w)\<close> with v or w outside \<open>[0, V)\<close> raises the
  \<^verbatim>\<open>ValueError\<close> of \<^verbatim>\<open>validate_vertex\<close> (for v when v is out of range, for w otherwise),
  and the object is left exactly as it was: \<^verbatim>\<open>E\<close> and the adjacency storage are
  untouched.
\<close>

theorem add_edge_out_of_range:
  fixes g :: list_graph and m :: matrix_graph
  shows "(v < 0 \<or> V g \<le> v \<or> w < 0 \<or> V g \<le> w \<longrightarrow>
            Graph_add_edge g v w =
              (Inl (ValueError (VertexNotBetween (if v < 0 \<or> V g \<le> v then v else w) (V g - 1))), g)) \<and>
         (v < 0 \<or> V m \<le> v \<or> w < 0 \<or> V m \<le> w \<longrightarrow>
            AdjMatrixGraph_add_edge m v w =
              (Inl (ValueError (VertexNotBetween (if v < 0 \<or> V m \<le> v then v else w) (V m - 1))), m))"
  by (auto simp: Graph_add_edge_def AdjMatrixGraph_add_edge_def add_edge_def validate_vertex_def)
theorem add_edge_out_of_range_witness:
  "Graph_add_edge \<lparr>V = 2, E = 5, adj = [[1], [0]]\<rparr> (- 1) 0 =
     (Inl (ValueError (VertexNotBetween (- 1) 1)), \<lparr>V = 2, E = 5, adj = [[1], [0]]\<rparr>) \<and>
   AdjMatrixGraph_add_edge \<lparr>V = 2, E = 5, adj = [[False, True], [True, False]]\<rparr> 1 2 =
     (Inl (ValueError (VertexNotBetween 2 1)), \<lparr>V = 2, E = 5, adj = [[False, True], [True, False]]\<rparr>)"
  using add_edge_out_of_range [where v = "- 1" and g = "\<lparr>V = 2, E = 5, adj = [[1], [0]]\<rparr>" and w = 0,
      THEN conjunct1]
    add_edge_out_of_range [where v = 1 and w = 2
      and m = "\<lparr>V = 2, E = 5, adj = [[False, True], [True, False]]\<rparr>", THEN conjunct2]
  by simp

subsection \<open>Constructing with a negative vertex count\<close>

text \<open>
  Claim C7 says that constructing either variant with a negative vertex count fails.
  \<^verbatim>\<open>Graph.__init__\<close> has no check: \<^verbatim>\<open>Graph(-1)\<close> is constructed.
\<close>

theorem Graph_init_negative_counterexample:
  "Graph_init (- 1) = Inr \<lparr>V = - 1, E = 0, adj = []\<rparr> \<and> \<not> (\<exists>e. Graph_init (- 1) = Inl e)"
  by (simp add: Graph_init_eq)
text \<open>
  Claim C7, amended. Constructing the matrix variant with a negative vertex count fails
  with the \<^verbatim>\<open>ValueError\<close> that \<^verbatim>\<open>np.zeros\<close> raises on a negative dimension; constructing
  the list variant with a negative vertex count n does not fail and gives a graph with
  \<^verbatim>\<open>V\<close> = n, \<^verbatim>\<open>E\<close> = 0 and no adjacency list.
\<close>

theorem negative_vertex_count:
  "n < 0 \<Longrightarrow>
     AdjMatrixGraph_init n = Inl (ValueError NegativeDimensions) \<and>
     Graph_init n = Inr \<lparr>V = n, E = 0, adj = []\<rparr>"
  by (simp add: AdjMatrixGraph_init_def Graph_init_eq np_zeros_bool_def)

theorem negative_vertex_count_witness:
  "AdjMatrixGraph_init (- 3) = Inl (ValueError NegativeDimensions) \<and>
   Graph_init (- 3) = Inr \<lparr>V = - 3, E = 0, adj = []\<rparr>"
  using negative_vertex_count [of "- 3"] by simp

lemma Graph_add_edge_invalid_first:
  "v < 0 \<or> V g \<le> v \<Longrightarrow>
     Graph_add_edge g v w = (Inl (ValueError (VertexNotBetween v (V g - 1))), g)"
  by (auto simp: Graph_add_edge_def add_edge_def validate_vertex_def)
text \<open>
  Claim C10. For every negative n, constructing the list variant with vertex count n
  succeeds and gives a graph with \<^verbatim>\<open>E\<close> = 0 and no adjacency list. On it every call
  \<^verbatim>\<open>add_edge(v, w)\<close>, for all integers v and w, raises the out-of-range \<^verbatim>\<open>ValueError\<close>
  (for v) and leaves the graph as it was; so after any sequence of calls the graph is
  still the constructed one, and it rejects every edge for ever.
\<close>

theorem Graph_negative_rejects_every_edge:
  assumes "n < 0"
  shows "\<exists>g. Graph_init n = Inr g \<and> V g = n \<and> E g = 0 \<and> adj g = [] \<and>
           (\<forall>v w. Graph_add_edge g v w = (Inl (ValueError (VertexNotBetween v (n - 1))), g)) \<and>
           (\<forall>calls. foldl (\<lambda>h c. snd (Graph_add_edge h (fst c) (snd c))) g calls = g)"
proof -
  define g :: list_graph where "g = \<lparr>V = n, E = 0, adj = []\<rparr>"
  have init: "Graph_init n = Inr g" using assms by (simp add: Graph_init_eq g_def)
  have rej: "Graph_add_edge g v w = (Inl (ValueError (VertexNotBetween v (n - 1))), g)" for v w
  proof -
    have "v < 0 \<or> V g \<le> v" using assms by (auto simp: g_def)
    from Graph_add_edge_invalid_first [OF this] show ?thesis by (simp add: g_def)
  qed
  have "foldl (\<lambda>h c. snd (Graph_add_edge h (fst c) (snd c))) g calls = g" for calls
    by (induction calls) (simp_all add: rej)
  with init rej show ?thesis by (auto simp: g_def)
qed

theorem Graph_negative_rejects_every_edge_witness:
  "\<exists>g. Graph_init (- 2) = Inr g \<and> V g = - 2 \<and> E g = 0 \<and> adj g = [] \<and>
           (\<forall>v w. Graph_add_edge g v w = (Inl (ValueError (VertexNotBetween v (- 2 - 1))), g)) \<and>
           (\<forall>calls. foldl (\<lambda>h c. snd (Graph_add_edge h (fst c) (snd c))) g calls = g)"
  using Graph_negative_rejects_every_edge [of "- 2"] by simp
subsection \<open>Inserting an edge: the matrix\<close>

lemma length_set_cell [simp]: "length (set_cell a i j) = length a"
  by (simp add: set_cell_def)

lemma length_nth_set_cell [simp]: "length (set_cell a i j ! k) = length (a ! k)"
  by (cases "i = k"; cases "i < length a") (simp_all add: set_cell_def list_update_beyond)

lemma AdjMatrixGraph_adj_setter_in_range:
  assumes "square m" "0 \<le> i" "i < V m" "0 \<le> j" "j < V m"
  shows "AdjMatrixGraph_adj_setter m (i, j) = (Inr (), m\<lparr>adj := set_cell (adj m) (nat i) (nat j)\<rparr>)"
proof -
  have 1: "py_index (adj m) i = Inr (nat i)"
    using assms by (simp add: py_index_in_range square_def)
  have "adj m ! nat i \<in> set (adj m)" using assms by (simp add: square_def)
  then have "length (adj m ! nat i) = nat (V m)" using assms(1) by (simp add: square_def)
  then have 2: "py_index (adj m ! nat i) j = Inr (nat j)"
    using assms by (simp add: py_index_in_range)
  show ?thesis by (simp add: AdjMatrixGraph_adj_setter_def 1 2 set_cell_def)
qed

lemma square_set_cell:
  assumes "square m"
  shows "square (m\<lparr>adj := set_cell (adj m) i j\<rparr>)"
proof -
  have "length row = nat (V m)" if "row \<in> set (set_cell (adj m) i j)" for row
  proof -
    from that obtain k where k: "k < length (adj m)" "row = set_cell (adj m) i j ! k"
      by (auto simp: in_set_conv_nth)
    then have "length row = length (adj m ! k)" by simp
    moreover have "adj m ! k \<in> set (adj m)" using k by simp
    ultimately show ?thesis using assms by (simp add: square_def)
  qed
  then show ?thesis using assms by (simp add: square_def)
qed

lemma square_E_update: "square (m\<lparr>E := k\<rparr>) = square m"
  by (simp add: square_def)

lemma square_fresh: "0 \<le> n \<Longrightarrow> square \<lparr>V = n, E = 0, adj = replicate (nat n) (replicate (nat n) False)\<rparr>"
  by (simp add: square_def)

lemma square_row: "square m \<Longrightarrow> i < nat (V m) \<Longrightarrow> length (adj m ! i) = nat (V m)"
  by (simp add: square_def)

lemma AdjMatrixGraph_add_edge_in_range:
  assumes sq: "square m" and v: "0 \<le> v" "v < V m" and w: "0 \<le> w" "w < V m"
  shows "AdjMatrixGraph_add_edge m v w = (Inr (), m\<lparr>E := E m + 1, adj := mark_edge (adj m) v w\<rparr>)"
proof -
  let ?m1 = "m\<lparr>E := E m + 1\<rparr>"
  have sq1: "square ?m1" using sq by (simp add: square_E_update)
  have a: "AdjMatrixGraph_adj_setter ?m1 (w, v) = (Inr (), ?m1\<lparr>adj := set_cell (adj ?m1) (nat w) (nat v)\<rparr>)"
    using AdjMatrixGraph_adj_setter_in_range [OF sq1, of w v] v w by simp
  have sq2: "square (?m1\<lparr>adj := set_cell (adj ?m1) (nat w) (nat v)\<rparr>)"
    using sq1 by (rule square_set_cell)
  have b: "AdjMatrixGraph_adj_setter (?m1\<lparr>adj := set_cell (adj ?m1) (nat w) (nat v)\<rparr>) (v, w) =
       (Inr (), ?m1\<lparr>adj := set_cell (set_cell (adj ?m1) (nat w) (nat v)) (nat v) (nat w)\<rparr>)"
    using AdjMatrixGraph_adj_setter_in_range [OF sq2, of v w] v w by simp
  have c: "AdjMatrixGraph_adj_setter ?m1 (v, w) = (Inr (), ?m1\<lparr>adj := set_cell (adj ?m1) (nat v) (nat w)\<rparr>)"
    using AdjMatrixGraph_adj_setter_in_range [OF sq1, of v w] v w by simp
  show ?thesis
  proof (cases "v = w")
    case True
    then show ?thesis
      using v c by (simp add: AdjMatrixGraph_add_edge_def add_edge_def validate_vertex_ok mark_edge_def)
  next
    case False
    then show ?thesis
      using v w a b by (simp add: AdjMatrixGraph_add_edge_def add_edge_def validate_vertex_ok mark_edge_def)
  qed
qed

lemma count_true_single:
  "j < n \<Longrightarrow> length (filter (\<lambda>b. b) ((replicate n False)[j := True])) = 1"
  by (simp add: upd_conv_take_nth_drop)

lemma set_cell_idem: "set_cell (set_cell a i j) i j = set_cell a i j"
  by (cases "i < length a") (simp_all add: set_cell_def list_update_beyond)

lemma set_cell_commute:
  "set_cell (set_cell a i j) k l = set_cell (set_cell a k l) i j"
  by (cases "i = k"; cases "j = l"; cases "i < length a"; cases "k < length a")
     (simp_all add: set_cell_def list_update_swap list_update_beyond)

lemma mark_edge_idem: "mark_edge (mark_edge a v w) v w = mark_edge a v w"
  apply (simp add: mark_edge_def set_cell_idem)
  apply (simp add: set_cell_commute [of _ "nat w" "nat v" "nat v" "nat w"] set_cell_idem)
  done

lemma mark_edge_row:
  assumes "0 \<le> v" "0 \<le> w" "nat v < length a"
  shows "mark_edge a v w ! nat v = (a ! nat v)[nat w := True]"
proof (cases "v = w")
  case True
  then show ?thesis using assms by (simp add: mark_edge_def set_cell_def)
next
  case False
  then have "nat w \<noteq> nat v" using assms by simp
  then show ?thesis using assms False by (simp add: mark_edge_def set_cell_def)
qed

lemma length_mark_edge [simp]: "length (mark_edge a v w) = length a"
  by (simp add: mark_edge_def)

lemma square_mark_edge:
  "square m \<Longrightarrow> square (m\<lparr>E := k, adj := mark_edge (adj m) v w\<rparr>)"
proof -
  assume sq: "square m"
  have 1: "square (m\<lparr>adj := set_cell (adj m) i j\<rparr>)" for i j
    using sq by (rule square_set_cell)
  have 2: "square (m\<lparr>adj := set_cell (set_cell (adj m) i j) i' j'\<rparr>)" for i j i' j'
    using square_set_cell [OF 1 [of i j], of i' j'] by simp
  have "square (m\<lparr>adj := mark_edge (adj m) v w\<rparr>)"
    using 1 2 by (simp add: mark_edge_def)
  then show ?thesis by (simp add: square_def)
qed

lemma mark_edge_cell:
  assumes sq: "square m" and r: "in_range (V m) (v, w)"
    and i: "i < nat (V m)" and j: "j < nat (V m)"
  shows "mark_edge (adj m) v w ! i ! j =
           (adj m ! i ! j \<or> (i = nat v \<and> j = nat w) \<or> (i = nat w \<and> j = nat v))"
proof -
  have len: "length (adj m) = nat (V m)" using sq by (simp add: square_def)
  have row: "length (adj m ! k) = nat (V m)" if "k < nat (V m)" for k
    using square_row [OF sq that] .
  have v: "nat v < nat (V m)" and w: "nat w < nat (V m)"
    using r by (simp_all add: in_range_def)
  show ?thesis
    using len row [OF i] row [OF v] row [OF w] i j v w
    by (auto simp: mark_edge_def set_cell_def nth_list_update)
qed

lemma AdjMatrixGraph_degree_in_range:
  assumes "length (adj m) = nat (V m)" "0 \<le> v" "v < V m"
  shows "AdjMatrixGraph_degree m v = Inr (int (length (filter (\<lambda>b. b) (adj m ! nat v))))"
  using assms by (simp add: AdjMatrixGraph_degree_def validate_vertex_ok py_index_in_range)
text \<open>
  Claim C4. For the matrix variant, on a newly constructed graph two identical calls
  \<^verbatim>\<open>add_edge(v, w)\<close> with v and w in range both succeed and raise \<^verbatim>\<open>E\<close> to 2, while the
  second call leaves the matrix as the first made it and \<^verbatim>\<open>degree(v)\<close> is 1 after the
  first call and still 1 after the second.
\<close>

theorem AdjMatrixGraph_duplicate_edge:
  assumes v: "0 \<le> v" "v < n" and w: "0 \<le> w" "w < n"
  shows "\<exists>g g1 g2. AdjMatrixGraph_init n = Inr g \<and> E g = 0 \<and>
           AdjMatrixGraph_add_edge g v w = (Inr (), g1) \<and>
           AdjMatrixGraph_add_edge g1 v w = (Inr (), g2) \<and>
           E g1 = 1 \<and> E g2 = 2 \<and> adj g2 = adj g1 \<and>
           AdjMatrixGraph_degree g1 v = Inr 1 \<and> AdjMatrixGraph_degree g2 v = Inr 1"
proof -
  define z where "z = replicate (nat n) (replicate (nat n) False)"
  define g :: matrix_graph where "g = \<lparr>V = n, E = 0, adj = z\<rparr>"
  define g1 where "g1 = g\<lparr>E := 1, adj := mark_edge z v w\<rparr>"
  define g2 where "g2 = g\<lparr>E := 2, adj := mark_edge z v w\<rparr>"
  have n: "0 \<le> n" using v by simp
  have init: "AdjMatrixGraph_init n = Inr g"
    using AdjMatrixGraph_init_eq [OF n] by (simp add: g_def z_def)
  have sq: "square g" by (simp add: square_def g_def z_def)
  have sq1: "square g1"
    using square_mark_edge [OF sq, where k = 1 and v = v and w = w] by (simp add: g1_def g_def)
  have s1: "AdjMatrixGraph_add_edge g v w = (Inr (), g1)"
    using AdjMatrixGraph_add_edge_in_range [OF sq, of v w] v w by (simp add: g_def g1_def)
  have s2: "AdjMatrixGraph_add_edge g1 v w = (Inr (), g2)"
    using AdjMatrixGraph_add_edge_in_range [OF sq1, of v w] v w
    by (simp add: g_def g1_def g2_def mark_edge_idem)
  have row: "mark_edge z v w ! nat v = (replicate (nat n) False)[nat w := True]"
    using mark_edge_row [of v w z] v w by (simp add: z_def)
  have cnt: "length (filter (\<lambda>b. b) (mark_edge z v w ! nat v)) = 1"
    unfolding row using w by (simp add: count_true_single)
  have d1: "AdjMatrixGraph_degree g1 v = Inr 1"
    using AdjMatrixGraph_degree_in_range [of g1 v] v cnt by (simp add: g1_def g_def z_def)
  have d2: "AdjMatrixGraph_degree g2 v = Inr 1"
    using AdjMatrixGraph_degree_in_range [of g2 v] v cnt by (simp add: g2_def g_def z_def)
  show ?thesis
    using init s1 s2 d1 d2 by (simp add: g_def g1_def g2_def)
qed

theorem AdjMatrixGraph_duplicate_edge_witness:
  "\<exists>g g1 g2. AdjMatrixGraph_init 3 = Inr g \<and> E g = 0 \<and>
           AdjMatrixGraph_add_edge g 0 2 = (Inr (), g1) \<and>
           AdjMatrixGraph_add_edge g1 0 2 = (Inr (), g2) \<and>
           E g1 = 1 \<and> E g2 = 2 \<and> adj g2 = adj g1 \<and>
           AdjMatrixGraph_degree g1 0 = Inr 1 \<and> AdjMatrixGraph_degree g2 0 = Inr 1"
  using AdjMatrixGraph_duplicate_edge [of 0 3 2] by simp
subsection \<open>The maximum degree\<close>

text \<open>
  The loop of \<^verbatim>\<open>max_degree\<close> returns the greatest of its start value and the degrees it
  meets, whenever every call of \<^verbatim>\<open>degree\<close> returns.
\<close>

lemma Max_insert_max:
  fixes a b :: int
  assumes "finite A"
  shows "Max (insert (max a b) A) = Max (insert a (insert b A))"
proof (cases "A = {}")
  case True
  then show ?thesis by (simp add: max.commute)
next
  case False
  then show ?thesis using assms by (simp add: max.assoc)
qed

lemma max_degree_loop_value:
  assumes "\<forall>v \<in> set vs. deg g v = Inr (f v)"
  shows "max_degree_loop deg g vs mx = Inr (Max (insert mx (f ` set vs)))"
  using assms
proof (induction vs arbitrary: mx)
  case Nil
  then show ?case by simp
next
  case (Cons v vs)
  have step: "deg g v = Inr (f v)" using Cons.prems by simp
  have rest: "\<forall>u \<in> set vs. deg g u = Inr (f u)" using Cons.prems by simp
  have cond: "(if f v > mx then f v else mx) = max mx (f v)" by (simp add: max_def)
  have "max_degree_loop deg g (v # vs) mx = max_degree_loop deg g vs (max mx (f v))"
    by (simp only: max_degree_loop.simps step sum.case cond)
  also have "\<dots> = Inr (Max (insert (max mx (f v)) (f ` set vs)))"
    by (rule Cons.IH [OF rest])
  also have "Max (insert (max mx (f v)) (f ` set vs)) = Max (insert mx (insert (f v) (f ` set vs)))"
    by (rule Max_insert_max) simp
  finally show ?case by simp
qed

lemma max_degree_value:
  assumes "\<forall>v. 0 \<le> v \<and> v < V g \<longrightarrow> deg g v = Inr (f v)"
  shows "max_degree deg g = Inr (Max (insert 0 (f ` {v. 0 \<le> v \<and> v < V g})))"
  using max_degree_loop_value [of "py_range (V g)" deg g f 0] assms
  by (simp add: max_degree_def set_py_range)

lemma max_degree_spec:
  assumes deg: "\<forall>v. 0 \<le> v \<and> v < V g \<longrightarrow> deg g v = Inr (f v) \<and> 0 \<le> f v"
  shows "\<exists>k. max_degree deg g = Inr k \<and>
           (V g \<le> 0 \<longrightarrow> k = 0) \<and>
           (0 < V g \<longrightarrow> k = Max {d. \<exists>v. 0 \<le> v \<and> v < V g \<and> deg g v = Inr d}) \<and>
           ((\<forall>v. 0 \<le> v \<and> v < V g \<longrightarrow> deg g v = Inr 0) \<longrightarrow> k = 0)"
proof -
  let ?S = "{v. 0 \<le> v \<and> v < V g}"
  let ?k = "Max (insert 0 (f ` ?S))"
  have val: "max_degree deg g = Inr ?k"
    using max_degree_value [of g deg f] deg by simp
  have fin: "finite (f ` ?S)" using finite_vertices by simp
  have img: "{d. \<exists>v. 0 \<le> v \<and> v < V g \<and> deg g v = Inr d} = f ` ?S"
    using deg by auto
  have empty: "V g \<le> 0 \<Longrightarrow> ?k = 0"
  proof -
    assume "V g \<le> 0"
    then have "?S = {}" by auto
    then have "insert 0 (f ` ?S) = {0}" by (simp only: image_empty)
    then show ?thesis by (simp only: Max_singleton)
  qed
  have pos: "0 < V g \<Longrightarrow> ?k = Max (f ` ?S)"
  proof -
    assume "0 < V g"
    then have "0 \<in> ?S" by simp
    then have ne: "f ` ?S \<noteq> {}" by blast
    have "Max (f ` ?S) \<in> f ` ?S" using fin ne by (rule Max_in)
    then have "0 \<le> Max (f ` ?S)" using deg by auto
    then show ?thesis using fin ne by (simp add: max_def)
  qed
  have iso: "(\<forall>v. 0 \<le> v \<and> v < V g \<longrightarrow> deg g v = Inr 0) \<Longrightarrow> ?k = 0"
  proof -
    assume "\<forall>v. 0 \<le> v \<and> v < V g \<longrightarrow> deg g v = Inr 0"
    then have "\<forall>v \<in> ?S. f v = 0" using deg by auto
    then have "insert 0 (f ` ?S) = {0}" by auto
    then show ?thesis by (simp only: Max_singleton)
  qed
  show ?thesis using val empty pos iso by (simp add: img)
qed

lemma Graph_degree_in_range:
  assumes "length (adj g) = nat (V g)" "0 \<le> v" "v < V g"
  shows "Graph_degree g v = Inr (int (length (adj g ! nat v)))"
  using assms by (simp add: Graph_degree_def validate_vertex_ok py_index_in_range)
text \<open>
  Claim C8. In both variants, on a graph whose \<^verbatim>\<open>_adj\<close> has \<^verbatim>\<open>V\<close> rows,
  \<^verbatim>\<open>max_degree()\<close> returns the maximum of \<^verbatim>\<open>degree(v)\<close> over the vertices v in \<open>[0, V)\<close>;
  it returns 0 when there is no vertex and when every vertex has degree 0.
\<close>

theorem max_degree_is_maximum:
  fixes g :: list_graph and m :: matrix_graph
  shows "(length (adj g) = nat (V g) \<longrightarrow>
           (\<exists>k. Graph_max_degree g = Inr k \<and>
              (V g \<le> 0 \<longrightarrow> k = 0) \<and>
              (0 < V g \<longrightarrow> k = Max {d. \<exists>v. 0 \<le> v \<and> v < V g \<and> Graph_degree g v = Inr d}) \<and>
              ((\<forall>v. 0 \<le> v \<and> v < V g \<longrightarrow> Graph_degree g v = Inr 0) \<longrightarrow> k = 0))) \<and>
         (length (adj m) = nat (V m) \<longrightarrow>
           (\<exists>k. AdjMatrixGraph_max_degree m = Inr k \<and>
              (V m \<le> 0 \<longrightarrow> k = 0) \<and>
              (0 < V m \<longrightarrow> k = Max {d. \<exists>v. 0 \<le> v \<and> v < V m \<and> AdjMatrixGraph_degree m v = Inr d}) \<and>
              ((\<forall>v. 0 \<le> v \<and> v < V m \<longrightarrow> AdjMatrixGraph_degree m v = Inr 0) \<longrightarrow> k = 0)))"
proof (intro conjI impI)
  assume wf: "length (adj g) = nat (V g)"
  have "\<forall>v. 0 \<le> v \<and> v < V g \<longrightarrow>
          Graph_degree g v = Inr (int (length (adj g ! nat v))) \<and> 0 \<le> int (length (adj g ! nat v))"
    using Graph_degree_in_range [OF wf] by simp
  from max_degree_spec [of g Graph_degree "\<lambda>v. int (length (adj g ! nat v))", OF this]
  show "\<exists>k. Graph_max_degree g = Inr k \<and>
              (V g \<le> 0 \<longrightarrow> k = 0) \<and>
              (0 < V g \<longrightarrow> k = Max {d. \<exists>v. 0 \<le> v \<and> v < V g \<and> Graph_degree g v = Inr d}) \<and>
              ((\<forall>v. 0 \<le> v \<and> v < V g \<longrightarrow> Graph_degree g v = Inr 0) \<longrightarrow> k = 0)"
    unfolding Graph_max_degree_def .
next
  assume wf: "length (adj m) = nat (V m)"
  have "\<forall>v. 0 \<le> v \<and> v < V m \<longrightarrow>
          AdjMatrixGraph_degree m v = Inr (int (length (filter (\<lambda>b. b) (adj m ! nat v)))) \<and>
          0 \<le> int (length (filter (\<lambda>b. b) (adj m ! nat v)))"
    using AdjMatrixGraph_degree_in_range [OF wf] by simp
  from max_degree_spec [of m AdjMatrixGraph_degree "\<lambda>v. int (length (filter (\<lambda>b. b) (adj m ! nat v)))", OF this]
  show "\<exists>k. AdjMatrixGraph_max_degree m = Inr k \<and>
              (V m \<le> 0 \<longrightarrow> k = 0) \<and>
              (0 < V m \<longrightarrow> k = Max {d. \<exists>v. 0 \<le> v \<and> v < V m \<and> AdjMatrixGraph_degree m v = Inr d}) \<and>
              ((\<forall>v. 0 \<le> v \<and> v < V m \<longrightarrow> AdjMatrixGraph_degree m v = Inr 0) \<longrightarrow> k = 0)"
    unfolding AdjMatrixGraph_max_degree_def .
qed

theorem max_degree_is_maximum_witness:
  "length (adj \<lparr>V = 3, E = 2, adj = [[1], [0, 2], [1 :: int]]\<rparr>) = nat (V \<lparr>V = 3, E = 2, adj = [[1], [0, 2], [1 :: int]]\<rparr>) \<and>
   Graph_max_degree \<lparr>V = 3, E = 2, adj = [[1], [0, 2], [1]]\<rparr> = Inr 2 \<and>
   Max {d. \<exists>v. 0 \<le> v \<and> v < 3 \<and> Graph_degree \<lparr>V = 3, E = 2, adj = [[1], [0, 2], [1]]\<rparr> v = Inr d} = 2 \<and>
   AdjMatrixGraph_max_degree
     \<lparr>V = 3, E = 2, adj = [[False, True, False], [True, False, True], [False, True, False]]\<rparr> = Inr 2 \<and>
   Max {d. \<exists>v. 0 \<le> v \<and> v < 3 \<and>
          AdjMatrixGraph_degree
            \<lparr>V = 3, E = 2, adj = [[False, True, False], [True, False, True], [False, True, False]]\<rparr> v = Inr d} = 2"
proof -
  let ?g = "\<lparr>V = 3, E = 2, adj = [[1], [0, 2], [1]]\<rparr> :: list_graph"
  let ?m = "\<lparr>V = 3, E = 2, adj = [[False, True, False], [True, False, True], [False, True, False]]\<rparr> :: matrix_graph"
  have a: "Graph_max_degree ?g = Inr 2" by code_simp
  have b: "AdjMatrixGraph_max_degree ?m = Inr 2" by code_simp
  have c: "Max {d. \<exists>v. 0 \<le> v \<and> v < 3 \<and> Graph_degree ?g v = Inr d} = 2"
    using max_degree_is_maximum [where g = ?g, THEN conjunct1] a by simp
  have d: "Max {d. \<exists>v. 0 \<le> v \<and> v < 3 \<and> AdjMatrixGraph_degree ?m v = Inr d} = 2"
    using max_degree_is_maximum [where m = ?m, THEN conjunct2] b by simp
  show ?thesis using a b c d by simp
qed
subsection \<open>The entries of the adjacency lists are vertices\<close>

lemma Graph_adj_setter_keeps_valid:
  assumes inv: "entries_valid g" and x: "0 \<le> x" "x < V g"
  shows "entries_valid (snd (Graph_adj_setter g (i, x))) \<and> V (snd (Graph_adj_setter g (i, x))) = V g"
proof (cases "py_index (adj g) i")
  case (Inl e)
  then show ?thesis using inv by (simp add: Graph_adj_setter_def)
next
  case (Inr j)
  then have j: "j < length (adj g)" by (rule py_index_Inr)
  have "\<forall>y \<in> set l. 0 \<le> y \<and> y < V g" if "l \<in> set ((adj g)[j := adj g ! j @ [x]])" for l
  proof -
    from that have "l = adj g ! j @ [x] \<or> l \<in> set (adj g)"
      using set_update_subset_insert [of "adj g" j "adj g ! j @ [x]"] by auto
    moreover have "adj g ! j \<in> set (adj g)" using j by simp
    ultimately show ?thesis using inv x by (auto simp: entries_valid_def)
  qed
  then show ?thesis using Inr by (simp add: Graph_adj_setter_def entries_valid_def)
qed

lemma entries_valid_E_update: "entries_valid (g\<lparr>E := k\<rparr>) = entries_valid g"
  by (simp add: entries_valid_def)

lemma Graph_add_edge_keeps_valid:
  assumes inv: "entries_valid g"
  shows "entries_valid (snd (Graph_add_edge g v w)) \<and> V (snd (Graph_add_edge g v w)) = V g"
proof (cases "0 \<le> v \<and> v < V g \<and> 0 \<le> w \<and> w < V g")
  case False
  then show ?thesis
    using inv by (auto simp: Graph_add_edge_def add_edge_def validate_vertex_def)
next
  case True
  let ?g1 = "g\<lparr>E := E g + 1\<rparr>"
  have inv1: "entries_valid ?g1" using inv by (simp add: entries_valid_E_update)
  have a: "entries_valid (snd (Graph_adj_setter ?g1 (w, v))) \<and> V (snd (Graph_adj_setter ?g1 (w, v))) = V g"
    using Graph_adj_setter_keeps_valid [OF inv1, of v w] True by simp
  have b: "entries_valid (snd (Graph_adj_setter ?g1 (v, w))) \<and> V (snd (Graph_adj_setter ?g1 (v, w))) = V g"
    using Graph_adj_setter_keeps_valid [OF inv1, of w v] True by simp
  show ?thesis
  proof (cases "v = w")
    case True
    with \<open>0 \<le> v \<and> v < V g \<and> 0 \<le> w \<and> w < V g\<close> b show ?thesis
      by (simp add: Graph_add_edge_def add_edge_def validate_vertex_ok split: prod.splits sum.splits)
  next
    case False
    obtain r g2 where s: "Graph_adj_setter ?g1 (w, v) = (r, g2)" by (cases "Graph_adj_setter ?g1 (w, v)")
    have g2: "entries_valid g2" "V g2 = V g" using a s by simp_all
    have c: "entries_valid (snd (Graph_adj_setter g2 (v, w))) \<and> V (snd (Graph_adj_setter g2 (v, w))) = V g"
      using Graph_adj_setter_keeps_valid [OF g2(1), of w v] True g2(2) by simp
    show ?thesis
      using True False s g2 c
      by (cases r) (simp_all add: Graph_add_edge_def add_edge_def validate_vertex_ok)
  qed
qed

lemma Graph_init_valid: "entries_valid \<lparr>V = n, E = 0, adj = replicate (nat n) []\<rparr>"
  by (simp add: entries_valid_def)
text \<open>
  Claim C9. A list graph constructed with a non-negative vertex count n has \<^verbatim>\<open>V\<close> = n
  and only valid entries (every entry of every adjacency list is in \<open>[0, V)\<close>); both
  still hold after any sequence of \<^verbatim>\<open>add_edge\<close> calls, whether a call succeeds or
  raises. A single call keeps the two on any graph, whatever its outcome.
\<close>

theorem Graph_entries_stay_valid:
  assumes "0 \<le> n"
  shows "\<exists>g. Graph_init n = Inr g \<and> V g = n \<and> entries_valid g \<and>
           (\<forall>calls. entries_valid (foldl (\<lambda>h c. snd (Graph_add_edge h (fst c) (snd c))) g calls) \<and>
                    V (foldl (\<lambda>h c. snd (Graph_add_edge h (fst c) (snd c))) g calls) = n) \<and>
           (\<forall>h v w. entries_valid h \<longrightarrow>
                    entries_valid (snd (Graph_add_edge h v w)) \<and> V (snd (Graph_add_edge h v w)) = V h)"
proof -
  define g :: list_graph where "g = \<lparr>V = n, E = 0, adj = replicate (nat n) []\<rparr>"
  have init: "Graph_init n = Inr g" by (simp add: Graph_init_eq g_def)
  have g: "entries_valid g" "V g = n" by (simp_all add: g_def Graph_init_valid)
  have run: "entries_valid (foldl (\<lambda>h c. snd (Graph_add_edge h (fst c) (snd c))) h calls) \<and>
             V (foldl (\<lambda>h c. snd (Graph_add_edge h (fst c) (snd c))) h calls) = V h"
    if "entries_valid h" for h calls
    using that
  proof (induction calls arbitrary: h)
    case Nil
    then show ?case by simp
  next
    case (Cons c calls)
    from Graph_add_edge_keeps_valid [OF Cons.prems, of "fst c" "snd c"]
    have 1: "entries_valid (snd (Graph_add_edge h (fst c) (snd c)))"
      and 2: "V (snd (Graph_add_edge h (fst c) (snd c))) = V h" by simp_all
    from Cons.IH [OF 1] 2 show ?case by simp
  qed
  show ?thesis
    using init g run [OF g(1)] Graph_add_edge_keeps_valid by auto
qed

theorem Graph_entries_stay_valid_witness:
  "\<exists>g. Graph_init 2 = Inr g \<and> V g = 2 \<and> entries_valid g \<and>
        entries_valid (foldl (\<lambda>h c. snd (Graph_add_edge h (fst c) (snd c))) g [(0, 1), (5, 0), (1, 1)]) \<and>
        V (foldl (\<lambda>h c. snd (Graph_add_edge h (fst c) (snd c))) g [(0, 1), (5, 0), (1, 1)]) = 2 \<and>
        entries_valid (snd (Graph_add_edge g 1 0)) \<and> V (snd (Graph_add_edge g 1 0)) = V g"
proof -
  from Graph_entries_stay_valid [of 2]
  obtain g where g: "Graph_init 2 = Inr g" "V g = 2" "entries_valid g"
    and run: "\<And>calls. entries_valid (foldl (\<lambda>h c. snd (Graph_add_edge h (fst c) (snd c))) g calls) \<and>
                    V (foldl (\<lambda>h c. snd (Graph_add_edge h (fst c) (snd c))) g calls) = 2"
    and step: "\<And>h v w. entries_valid h \<Longrightarrow>
                    entries_valid (snd (Graph_add_edge h v w)) \<and> V (snd (Graph_add_edge h v w)) = V h"
    by auto
  show ?thesis
    using g run [of "[(0, 1), (5, 0), (1, 1)]"] step [OF g(3), of 1 0] by blast
qed
subsection \<open>Sequences of insertions and the count of self-loops\<close>

text \<open>
  \<^verbatim>\<open>self_loops\<close> of the list variant returns \<open>loops\<close> of the adjacency lists; an
  insertion adds one to it exactly for a self-loop.
\<close>

lemma count_self_eq: "count_self v l c = c + int (count_list l v)"
  by (induction l arbitrary: c) simp_all

lemma Graph_self_loops_loop_value:
  assumes "\<forall>v \<in> set vs. 0 \<le> v \<and> v < int (length (adj g))"
  shows "Graph_self_loops_loop g vs c =
           Inr (c + (\<Sum>v\<leftarrow>vs. int (count_list (adj g ! nat v) v)))"
  using assms
  by (induction vs arbitrary: c) (simp_all add: py_index_in_range count_self_eq)

lemma Graph_self_loops_value:
  assumes "length (adj g) = nat (V g)"
  shows "Graph_self_loops g = Inr (int (loops (adj g)))"
proof -
  have "\<forall>v \<in> set (py_range (V g)). 0 \<le> v \<and> v < int (length (adj g))"
    using assms by (auto simp: set_py_range)
  then have "Graph_self_loops g =
      Inr (\<Sum>v\<leftarrow>py_range (V g). int (count_list (adj g ! nat v) v))"
    by (simp add: Graph_self_loops_def Graph_self_loops_loop_value)
  also have "(\<Sum>v\<leftarrow>py_range (V g). int (count_list (adj g ! nat v) v)) =
      (\<Sum>u\<leftarrow>[0..<length (adj g)]. int (count_list (adj g ! u) (int u)))"
    using assms by (simp add: py_range_def comp_def)
  also have "\<dots> = int (loops (adj g))"
    by (simp add: loops_def interv_sum_list_conv_sum_set_nat atLeast0LessThan)
  finally show ?thesis .
qed

lemma loops_append_entry:
  assumes "i < length a"
  shows "loops (a[i := a ! i @ [x]]) = loops a + (if x = int i then 1 else 0)"
proof -
  have "loops (a[i := a ! i @ [x]]) =
      (\<Sum>u < length a. count_list (a ! u) (int u) + (if u = i then (if x = int i then 1 else 0) else 0))"
    unfolding loops_def by (rule sum.cong) (auto simp: nth_list_update)
  also have "\<dots> = loops a + (\<Sum>u < length a. if u = i then (if x = int i then 1 else 0) else 0)"
    by (simp add: loops_def sum.distrib)
  also have "(\<Sum>u < length a. if u = i then (if x = int i then 1 else 0) else 0) =
      (if x = int i then 1 else (0::nat))"
    using assms by (simp add: sum.delta)
  finally show ?thesis .
qed

lemma loops_fresh: "loops (replicate k []) = 0"
  by (simp add: loops_def)

lemma Graph_add_edge_step:
  assumes wf: "length (adj g) = nat (V g)" and r: "in_range (V g) (v, w)"
  shows "\<exists>g'. Graph_add_edge g v w = (Inr (), g') \<and> V g' = V g \<and> E g' = E g + 1 \<and>
           length (adj g') = length (adj g) \<and>
           loops (adj g') = loops (adj g) + (if v = w then 1 else 0) \<and>
           (\<forall>u < length (adj g). adj g' ! u = adj g ! u @ incident (int u) (v, w))"
proof -
  have v: "0 \<le> v" "v < V g" and w: "0 \<le> w" "w < V g"
    using r by (simp_all add: in_range_def)
  have nv: "nat v < length (adj g)" and nw: "nat w < length (adj g)"
    using wf v w by simp_all
  let ?a1 = "if v \<noteq> w then (adj g)[nat w := adj g ! nat w @ [v]] else adj g"
  let ?a2 = "?a1[nat v := ?a1 ! nat v @ [w]]"
  have l1: "loops ?a1 = loops (adj g)"
    using loops_append_entry [OF nw, of v] w by simp
  have "loops ?a2 = loops ?a1 + (if w = int (nat v) then 1 else 0)"
    by (rule loops_append_entry) (use nv in \<open>cases "v = w"; simp\<close>)
  then have l2: "loops ?a2 = loops (adj g) + (if v = w then 1 else 0)"
    using l1 v by auto
  have nth: "?a2 ! u = adj g ! u @ incident (int u) (v, w)" if "u < length (adj g)" for u
  proof (cases "v = w")
    case True
    then show ?thesis using that v by (auto simp: nth_list_update incident_def)
  next
    case False
    then have "nat v \<noteq> nat w" using v w by simp
    then show ?thesis using that v w False by (auto simp: nth_list_update incident_def)
  qed
  show ?thesis
    unfolding Graph_add_edge_in_range [OF wf v w]
    using l2 nth by simp
qed

lemma Graph_add_edges_run:
  assumes "length (adj g) = nat (V g)" and "\<forall>e \<in> set es. in_range (V g) e"
  shows "\<exists>g'. add_edges Graph_add_edge g es = (Inr (), g') \<and> V g' = V g \<and>
           E g' = E g + int (length es) \<and> length (adj g') = length (adj g) \<and>
           loops (adj g') = loops (adj g) + length (filter (\<lambda>e. fst e = snd e) es) \<and>
           (\<forall>u < length (adj g). adj g' ! u = adj g ! u @ concat (map (incident (int u)) es))"
  using assms
proof (induction es arbitrary: g)
  case Nil
  then show ?case by simp
next
  case (Cons e es)
  have "in_range (V g) (fst e, snd e)" using Cons.prems(2) by simp
  from Graph_add_edge_step [OF Cons.prems(1) this]
  obtain g1 where s: "Graph_add_edge g (fst e) (snd e) = (Inr (), g1)"
    and g1: "V g1 = V g" "E g1 = E g + 1" "length (adj g1) = length (adj g)"
      "loops (adj g1) = loops (adj g) + (if fst e = snd e then 1 else 0)"
      "\<forall>u < length (adj g). adj g1 ! u = adj g ! u @ incident (int u) (fst e, snd e)"
    by blast
  have wf1: "length (adj g1) = nat (V g1)" using g1 Cons.prems(1) by simp
  have r1: "\<forall>e \<in> set es. in_range (V g1) e" using g1 Cons.prems(2) by simp
  from Cons.IH [OF wf1 r1]
  obtain g' where s': "add_edges Graph_add_edge g1 es = (Inr (), g')"
    and g': "V g' = V g1" "E g' = E g1 + int (length es)" "length (adj g') = length (adj g1)"
      "loops (adj g') = loops (adj g1) + length (filter (\<lambda>e. fst e = snd e) es)"
      "\<forall>u < length (adj g1). adj g' ! u = adj g1 ! u @ concat (map (incident (int u)) es)"
    by blast
  have "add_edges Graph_add_edge g (e # es) = (Inr (), g')" using s s' by simp
  moreover have "\<forall>u < length (adj g). adj g' ! u = adj g ! u @ concat (map (incident (int u)) (e # es))"
    using g1 g' by simp
  ultimately show ?case using g1 g' by auto
qed

lemma add_edges_append:
  "add_edges adder g (xs @ ys) =
     (case add_edges adder g xs of
        (Inl e, g') \<Rightarrow> (Inl e, g')
      | (Inr _, g') \<Rightarrow> add_edges adder g' ys)"
  by (induction xs arbitrary: g) (auto split: prod.splits sum.splits)

lemma Graph_add_edges_success:
  assumes wf: "length (adj g) = nat (V g)"
    and ok: "add_edges Graph_add_edge g es = (Inr (), g')"
  shows "\<forall>e \<in> set es. in_range (V g) e"
proof (rule ccontr)
  assume "\<not> (\<forall>e \<in> set es. in_range (V g) e)"
  then have "\<exists>e \<in> set es. \<not> in_range (V g) e" by simp
  then obtain pre e post where es: "es = pre @ e # post" and bad: "\<not> in_range (V g) e"
    and pre: "\<forall>p \<in> set pre. \<not> \<not> in_range (V g) p"
    using split_list_first_prop [of es "\<lambda>e. \<not> in_range (V g) e"] by blast
  from Graph_add_edges_run [OF wf, of pre] pre
  obtain g1 where s: "add_edges Graph_add_edge g pre = (Inr (), g1)" and v1: "V g1 = V g"
    by auto
  have "\<not> in_range (V g1) (fst e, snd e)" using bad v1 by simp
  from add_edge_rejects [OF this, of Graph_adj_setter]
  obtain x where "fst (Graph_add_edge g1 (fst e) (snd e)) = Inl (ValueError (VertexNotBetween x (V g1 - 1)))"
    by (auto simp: Graph_add_edge_def)
  then have "fst (add_edges Graph_add_edge g1 (e # post)) = Inl (ValueError (VertexNotBetween x (V g1 - 1)))"
    by (cases "Graph_add_edge g1 (fst e) (snd e)") simp
  then have "fst (add_edges Graph_add_edge g es) = Inl (ValueError (VertexNotBetween x (V g1 - 1)))"
    using s by (simp add: es add_edges_append)
  then show False using ok by simp
qed

lemma Graph_add_edges_first_bad:
  assumes wf: "length (adj g) = nat (V g)"
    and pre: "\<forall>e \<in> set pre. in_range (V g) e" and bad: "\<not> in_range (V g) (v, w)"
  shows "fst (add_edges Graph_add_edge g (pre @ (v, w) # post)) =
           Inl (ValueError (VertexNotBetween (if v < 0 \<or> V g \<le> v then v else w) (V g - 1)))"
proof -
  from Graph_add_edges_run [OF wf pre]
  obtain g1 where s: "add_edges Graph_add_edge g pre = (Inr (), g1)" and v1: "V g1 = V g"
    by auto
  have "\<not> in_range (V g1) (v, w)" using bad v1 by simp
  from add_edge_invalid [OF this, of Graph_adj_setter]
  show ?thesis using s v1 by (simp add: add_edges_append Graph_add_edge_def)
qed
text \<open>
  The matrix variant: \<^verbatim>\<open>self_loops\<close> counts the diagonal cells that are set, and after a
  run of insertions a cell is set if and only if it was set before or one of the pairs
  names it, in either order.
\<close>

lemma AdjMatrixGraph_self_loops_loop_value:
  assumes "\<forall>v \<in> set vs. 0 \<le> v \<and> v < int (length (adj m)) \<and> v < int (length (adj m ! nat v))"
  shows "AdjMatrixGraph_self_loops_loop m vs c =
           Inr (c + int (length (filter (\<lambda>v. adj m ! nat v ! nat v) vs)))"
  using assms
  by (induction vs arbitrary: c) (simp_all add: py_index_in_range)

lemma AdjMatrixGraph_self_loops_value:
  assumes sq: "square m"
  shows "AdjMatrixGraph_self_loops m =
           Inr (int (length (filter (\<lambda>u. adj m ! u ! u) [0..<nat (V m)])))"
proof -
  have "\<forall>v \<in> set (py_range (V m)). 0 \<le> v \<and> v < int (length (adj m)) \<and> v < int (length (adj m ! nat v))"
  proof
    fix v assume "v \<in> set (py_range (V m))"
    then have v: "0 \<le> v" "v < V m" by (simp_all add: set_py_range)
    then have "length (adj m ! nat v) = nat (V m)" using square_row [OF sq, of "nat v"] by simp
    then show "0 \<le> v \<and> v < int (length (adj m)) \<and> v < int (length (adj m ! nat v))"
      using v sq by (simp add: square_def)
  qed
  then have "AdjMatrixGraph_self_loops m =
      Inr (int (length (filter (\<lambda>v. adj m ! nat v ! nat v) (py_range (V m)))))"
    by (simp add: AdjMatrixGraph_self_loops_def AdjMatrixGraph_self_loops_loop_value)
  also have "length (filter (\<lambda>v. adj m ! nat v ! nat v) (py_range (V m))) =
      length (filter (\<lambda>u. adj m ! u ! u) [0..<nat (V m)])"
    by (simp add: py_range_def filter_map comp_def)
  finally show ?thesis .
qed

lemma AdjMatrixGraph_add_edge_step:
  assumes sq: "square m" and r: "in_range (V m) (v, w)"
  shows "\<exists>m'. AdjMatrixGraph_add_edge m v w = (Inr (), m') \<and> square m' \<and> V m' = V m \<and>
           E m' = E m + 1 \<and>
           (\<forall>i j. i < nat (V m) \<and> j < nat (V m) \<longrightarrow>
              adj m' ! i ! j = (adj m ! i ! j \<or> (i = nat v \<and> j = nat w) \<or> (i = nat w \<and> j = nat v)))"
proof -
  have v: "0 \<le> v" "v < V m" and w: "0 \<le> w" "w < V m"
    using r by (simp_all add: in_range_def)
  show ?thesis
    unfolding AdjMatrixGraph_add_edge_in_range [OF sq v w]
    using square_mark_edge [OF sq, where k = "E m + 1" and v = v and w = w] mark_edge_cell [OF sq r]
    by simp
qed

lemma AdjMatrixGraph_add_edges_run:
  assumes "square m" and "\<forall>e \<in> set es. in_range (V m) e"
  shows "\<exists>m'. add_edges AdjMatrixGraph_add_edge m es = (Inr (), m') \<and> square m' \<and> V m' = V m \<and>
           E m' = E m + int (length es) \<and>
           (\<forall>i j. i < nat (V m) \<and> j < nat (V m) \<longrightarrow>
              adj m' ! i ! j =
                (adj m ! i ! j \<or> (int i, int j) \<in> set es \<or> (int j, int i) \<in> set es))"
  using assms
proof (induction es arbitrary: m)
  case Nil
  then show ?case by simp
next
  case (Cons e es)
  have re: "in_range (V m) (fst e, snd e)" using Cons.prems(2) by simp
  from AdjMatrixGraph_add_edge_step [OF Cons.prems(1) re]
  obtain m1 where s: "AdjMatrixGraph_add_edge m (fst e) (snd e) = (Inr (), m1)"
    and m1: "square m1" "V m1 = V m" "E m1 = E m + 1"
    and c1: "\<And>i j. i < nat (V m) \<Longrightarrow> j < nat (V m) \<Longrightarrow>
        adj m1 ! i ! j = (adj m ! i ! j \<or> (i = nat (fst e) \<and> j = nat (snd e)) \<or> (i = nat (snd e) \<and> j = nat (fst e)))"
    by blast
  have r1: "\<forall>e \<in> set es. in_range (V m1) e" using m1 Cons.prems(2) by simp
  from Cons.IH [OF m1(1) r1]
  obtain m' where s': "add_edges AdjMatrixGraph_add_edge m1 es = (Inr (), m')"
    and m': "square m'" "V m' = V m1" "E m' = E m1 + int (length es)"
    and c': "\<And>i j. i < nat (V m1) \<Longrightarrow> j < nat (V m1) \<Longrightarrow>
        adj m' ! i ! j = (adj m1 ! i ! j \<or> (int i, int j) \<in> set es \<or> (int j, int i) \<in> set es)"
    by blast
  have run: "add_edges AdjMatrixGraph_add_edge m (e # es) = (Inr (), m')" using s s' by simp
  have e: "0 \<le> fst e" "0 \<le> snd e" using re by (simp_all add: in_range_def)
  have cell: "adj m' ! i ! j =
      (adj m ! i ! j \<or> (int i, int j) \<in> set (e # es) \<or> (int j, int i) \<in> set (e # es))"
    if "i < nat (V m)" "j < nat (V m)" for i j
  proof -
    have a: "(i = nat (fst e) \<and> j = nat (snd e)) = ((int i, int j) = e)"
      using e by (cases e) auto
    have b: "(i = nat (snd e) \<and> j = nat (fst e)) = ((int j, int i) = e)"
      using e by (cases e) auto
    show ?thesis
      using c' [of i j] c1 [OF that] that m1(2) by (auto simp: a b)
  qed
  show ?case using run m1 m' cell by auto
qed

lemma AdjMatrixGraph_add_edges_success:
  assumes sq: "square m"
    and ok: "add_edges AdjMatrixGraph_add_edge m es = (Inr (), m')"
  shows "\<forall>e \<in> set es. in_range (V m) e"
proof (rule ccontr)
  assume "\<not> (\<forall>e \<in> set es. in_range (V m) e)"
  then have "\<exists>e \<in> set es. \<not> in_range (V m) e" by simp
  then obtain pre e post where es: "es = pre @ e # post" and bad: "\<not> in_range (V m) e"
    and pre: "\<forall>p \<in> set pre. \<not> \<not> in_range (V m) p"
    using split_list_first_prop [of es "\<lambda>e. \<not> in_range (V m) e"] by blast
  from AdjMatrixGraph_add_edges_run [OF sq, of pre] pre
  obtain m1 where s: "add_edges AdjMatrixGraph_add_edge m pre = (Inr (), m1)" and v1: "V m1 = V m"
    by auto
  have "\<not> in_range (V m1) (fst e, snd e)" using bad v1 by simp
  from add_edge_rejects [OF this, of AdjMatrixGraph_adj_setter]
  obtain x where "fst (AdjMatrixGraph_add_edge m1 (fst e) (snd e)) = Inl (ValueError (VertexNotBetween x (V m1 - 1)))"
    by (auto simp: AdjMatrixGraph_add_edge_def)
  then have "fst (add_edges AdjMatrixGraph_add_edge m1 (e # post)) = Inl (ValueError (VertexNotBetween x (V m1 - 1)))"
    by (cases "AdjMatrixGraph_add_edge m1 (fst e) (snd e)") simp
  then have "fst (add_edges AdjMatrixGraph_add_edge m es) = Inl (ValueError (VertexNotBetween x (V m1 - 1)))"
    using s by (simp add: es add_edges_append)
  then show False using ok by simp
qed

lemma AdjMatrixGraph_add_edges_first_bad:
  assumes sq: "square m"
    and pre: "\<forall>e \<in> set pre. in_range (V m) e" and bad: "\<not> in_range (V m) (v, w)"
  shows "fst (add_edges AdjMatrixGraph_add_edge m (pre @ (v, w) # post)) =
           Inl (ValueError (VertexNotBetween (if v < 0 \<or> V m \<le> v then v else w) (V m - 1)))"
proof -
  from AdjMatrixGraph_add_edges_run [OF sq pre]
  obtain m1 where s: "add_edges AdjMatrixGraph_add_edge m pre = (Inr (), m1)" and v1: "V m1 = V m"
    by auto
  have "\<not> in_range (V m1) (v, w)" using bad v1 by simp
  from add_edge_invalid [OF this, of AdjMatrixGraph_adj_setter]
  show ?thesis using s v1 by (simp add: add_edges_append AdjMatrixGraph_add_edge_def)
qed

lemma count_diagonal:
  assumes "\<forall>e \<in> set es. in_range n e"
  shows "length (filter (\<lambda>u. (int u, int u) \<in> set es) [0..<nat n]) = card {v. (v, v) \<in> set es}"
proof -
  let ?D = "{u. u < nat n \<and> (int u, int u) \<in> set es}"
  have "length (filter (\<lambda>u. (int u, int u) \<in> set es) [0..<nat n]) = card ?D"
  proof -
    have "{i. i < nat n \<and> (int ([0..<nat n] ! i), int ([0..<nat n] ! i)) \<in> set es} = ?D"
      by auto
    then show ?thesis by (simp add: length_filter_conv_card)
  qed
  also have "card ?D = card (int ` ?D)"
    by (simp add: card_image)
  also have "int ` ?D = {v. (v, v) \<in> set es}"
  proof (rule set_eqI)
    fix v
    show "v \<in> int ` ?D \<longleftrightarrow> v \<in> {v. (v, v) \<in> set es}"
    proof
      assume "v \<in> int ` ?D"
      then show "v \<in> {v. (v, v) \<in> set es}" by auto
    next
      assume "v \<in> {v. (v, v) \<in> set es}"
      then have in_es: "(v, v) \<in> set es" by simp
      then have "in_range n (v, v)" using assms by blast
      then have "0 \<le> v" "v < n" by (simp_all add: in_range_def)
      then have "nat v \<in> ?D" using in_es by simp
      moreover have "v = int (nat v)" using \<open>0 \<le> v\<close> by simp
      ultimately show "v \<in> int ` ?D" by (rule_tac image_eqI)
    qed
  qed
  finally show ?thesis .
qed
text \<open>
  Claim C3. On a newly constructed graph, after a sequence of \<^verbatim>\<open>add_edge\<close> calls that all
  succeed, \<^verbatim>\<open>self_loops()\<close> of the list variant is the number of calls with v = w (each
  call counts, also a repeated one), and \<^verbatim>\<open>self_loops()\<close> of the matrix variant is the
  number of distinct vertices v for which a call \<^verbatim>\<open>add_edge(v, v)\<close> was made.
\<close>

theorem self_loops_count:
  "(Graph_init n = Inr g \<and> add_edges Graph_add_edge g es = (Inr (), g') \<longrightarrow>
      Graph_self_loops g' = Inr (int (length (filter (\<lambda>e. fst e = snd e) es)))) \<and>
   (AdjMatrixGraph_init n = Inr m \<and> add_edges AdjMatrixGraph_add_edge m es = (Inr (), m') \<longrightarrow>
      AdjMatrixGraph_self_loops m' = Inr (int (card {v. (v, v) \<in> set es})))"
proof (intro conjI impI)
  assume a: "Graph_init n = Inr g \<and> add_edges Graph_add_edge g es = (Inr (), g')"
  then have g: "g = \<lparr>V = n, E = 0, adj = replicate (nat n) []\<rparr>" by (simp add: Graph_init_eq)
  then have wf: "length (adj g) = nat (V g)" by simp
  from a have ok: "add_edges Graph_add_edge g es = (Inr (), g')" by simp
  have r: "\<forall>e \<in> set es. in_range (V g) e" using Graph_add_edges_success [OF wf ok] .
  from Graph_add_edges_run [OF wf r] ok
  have g': "V g' = V g" "length (adj g') = length (adj g)"
    "loops (adj g') = loops (adj g) + length (filter (\<lambda>e. fst e = snd e) es)"
    by auto
  have wf': "length (adj g') = nat (V g')" using g' wf by simp
  have "loops (adj g') = length (filter (\<lambda>e. fst e = snd e) es)"
    using g'(3) by (simp add: g loops_fresh)
  then show "Graph_self_loops g' = Inr (int (length (filter (\<lambda>e. fst e = snd e) es)))"
    using Graph_self_loops_value [OF wf'] by simp
next
  assume a: "AdjMatrixGraph_init n = Inr m \<and> add_edges AdjMatrixGraph_add_edge m es = (Inr (), m')"
  then have n: "0 \<le> n" and m: "m = \<lparr>V = n, E = 0, adj = replicate (nat n) (replicate (nat n) False)\<rparr>"
    using AdjMatrixGraph_init_Inr [of n m] by simp_all
  have sq: "square m" unfolding m using n by (rule square_fresh)
  from a have ok: "add_edges AdjMatrixGraph_add_edge m es = (Inr (), m')" by simp
  have r: "\<forall>e \<in> set es. in_range (V m) e" using AdjMatrixGraph_add_edges_success [OF sq ok] .
  from AdjMatrixGraph_add_edges_run [OF sq r] ok
  have m': "square m'" "V m' = V m"
    and cell: "\<And>i j. i < nat (V m) \<Longrightarrow> j < nat (V m) \<Longrightarrow>
        adj m' ! i ! j = (adj m ! i ! j \<or> (int i, int j) \<in> set es \<or> (int j, int i) \<in> set es)"
    by auto
  have diag: "adj m' ! u ! u = ((int u, int u) \<in> set es)" if "u < nat n" for u
    using cell [of u u] that by (simp add: m)
  have "filter (\<lambda>u. adj m' ! u ! u) [0..<nat n] = filter (\<lambda>u. (int u, int u) \<in> set es) [0..<nat n]"
    by (rule filter_cong) (simp_all add: diag)
  then have "length (filter (\<lambda>u. adj m' ! u ! u) [0..<nat (V m')]) = card {v. (v, v) \<in> set es}"
    using count_diagonal [of es n] r m' by (simp add: m)
  then show "AdjMatrixGraph_self_loops m' = Inr (int (card {v. (v, v) \<in> set es}))"
    using AdjMatrixGraph_self_loops_value [OF m'(1)] by simp
qed

theorem self_loops_count_witness:
  "Graph_init 2 = Inr \<lparr>V = 2, E = 0, adj = [[], []]\<rparr> \<and>
   add_edges Graph_add_edge \<lparr>V = 2, E = 0, adj = [[], []]\<rparr> [(0, 0), (0, 1), (0, 0), (1, 1)] =
     (Inr (), \<lparr>V = 2, E = 4, adj = [[0, 1, 0], [0, 1]]\<rparr>) \<and>
   Graph_self_loops \<lparr>V = 2, E = 4, adj = [[0, 1, 0], [0, 1]]\<rparr> = Inr 3 \<and>
   AdjMatrixGraph_init 2 = Inr \<lparr>V = 2, E = 0, adj = [[False, False], [False, False]]\<rparr> \<and>
   add_edges AdjMatrixGraph_add_edge \<lparr>V = 2, E = 0, adj = [[False, False], [False, False]]\<rparr>
       [(0, 0), (0, 1), (0, 0), (1, 1)] =
     (Inr (), \<lparr>V = 2, E = 4, adj = [[True, True], [True, True]]\<rparr>) \<and>
   AdjMatrixGraph_self_loops \<lparr>V = 2, E = 4, adj = [[True, True], [True, True]]\<rparr> = Inr 2"
proof -
  let ?es = "[(0, 0), (0, 1), (0, 0), (1, 1)] :: (int \<times> int) list"
  have a: "Graph_init 2 = Inr \<lparr>V = 2, E = 0, adj = [[], []]\<rparr>"
    by code_simp
  have b: "add_edges Graph_add_edge \<lparr>V = 2, E = 0, adj = [[], []]\<rparr> ?es =
      (Inr (), \<lparr>V = 2, E = 4, adj = [[0, 1, 0], [0, 1]]\<rparr>)"
    by code_simp
  have c: "AdjMatrixGraph_init 2 = Inr \<lparr>V = 2, E = 0, adj = [[False, False], [False, False]]\<rparr>"
    by code_simp
  have d: "add_edges AdjMatrixGraph_add_edge \<lparr>V = 2, E = 0, adj = [[False, False], [False, False]]\<rparr> ?es =
      (Inr (), \<lparr>V = 2, E = 4, adj = [[True, True], [True, True]]\<rparr>)"
    by code_simp
  have s: "{v :: int. (v, v) \<in> set ?es} = {0, 1}" by auto
  have l: "Graph_self_loops \<lparr>V = 2, E = 4, adj = [[0, 1, 0], [0, 1]]\<rparr> = Inr 3"
    using self_loops_count [where n = 2 and g = "\<lparr>V = 2, E = 0, adj = [[], []]\<rparr>" and es = ?es
        and g' = "\<lparr>V = 2, E = 4, adj = [[0, 1, 0], [0, 1]]\<rparr>", THEN conjunct1] a b
    by simp
  have m: "AdjMatrixGraph_self_loops \<lparr>V = 2, E = 4, adj = [[True, True], [True, True]]\<rparr> = Inr 2"
    using self_loops_count [where n = 2 and es = ?es
        and m = "\<lparr>V = 2, E = 0, adj = [[False, False], [False, False]]\<rparr>"
        and m' = "\<lparr>V = 2, E = 4, adj = [[True, True], [True, True]]\<rparr>", THEN conjunct2] c d
    by (simp only: s) simp
  show ?thesis using a b c d l m by simp
qed
subsection \<open>The edge-list reader\<close>

lemma nth_line_0: "nth_line f 0 = fst (readline f)"
  by (simp add: nth_line_def)

lemma nth_line_Suc: "nth_line f (Suc k) = nth_line (snd (readline f)) k"
  by (simp add: nth_line_def funpow_swap1)

lemma nth_line_edges: "nth_line (snd (readline (snd (readline f)))) k = nth_line f (2 + k)"
  by (simp add: nth_line_Suc)

lemma py_int_ParseError: "py_int s = Inl e \<Longrightarrow> ParseError e"
  by (auto simp: py_int_def Let_def split: option.splits)

lemma unpack_edge_ParseError: "unpack_edge toks = Inl e \<Longrightarrow> ParseError e"
  by (auto simp: unpack_edge_def split: list.splits sum.splits dest: py_int_ParseError)

lemma read_edges_all:
  assumes "\<forall>k < length vs. unpack_edge (py_split (nth_line f k)) = Inr (p k)"
  shows "read_edges vs f acc = Inr (acc @ map p [0..<length vs])"
  using assms
proof (induction vs arbitrary: f acc p)
  case Nil
  then show ?case by simp
next
  case (Cons x vs)
  obtain line f' where rl: "readline f = (line, f')" by (cases "readline f")
  have first: "unpack_edge (py_split line) = Inr (p 0)"
    using Cons.prems rl by (auto simp: nth_line_0)
  have "\<forall>k < length vs. unpack_edge (py_split (nth_line f' k)) = Inr ((p \<circ> Suc) k)"
    using Cons.prems rl by (auto simp: nth_line_Suc)
  from Cons.IH [OF this, of "acc @ [p 0]"]
  have "read_edges vs f' (acc @ [p 0]) = Inr (acc @ p 0 # map (p \<circ> Suc) [0..<length vs])" by simp
  moreover have "map p [0..<length (x # vs)] = p 0 # map (p \<circ> Suc) [0..<length vs]"
    by (simp add: upt_conv_Cons map_Suc_upt [symmetric] del: upt_Suc)
  ultimately show ?case using rl first by simp
qed

lemma read_edges_first_bad:
  assumes "k < length vs"
    and "\<forall>i < k. \<exists>q. unpack_edge (py_split (nth_line f i)) = Inr q"
    and "unpack_edge (py_split (nth_line f k)) = Inl e"
  shows "read_edges vs f acc = Inl e"
  using assms
proof (induction vs arbitrary: f acc k)
  case Nil
  then show ?case by simp
next
  case (Cons x vs)
  obtain line f' where rl: "readline f = (line, f')" by (cases "readline f")
  show ?case
  proof (cases k)
    case 0
    then show ?thesis using Cons.prems(3) rl by (simp add: nth_line_0)
  next
    case (Suc j)
    then obtain q where first: "unpack_edge (py_split line) = Inr q"
      using Cons.prems(2) rl by (auto simp: nth_line_0)
    have j: "j < length vs" using Cons.prems(1) Suc by simp
    have before: "\<forall>i < j. \<exists>q. unpack_edge (py_split (nth_line f' i)) = Inr q"
    proof (intro allI impI)
      fix i assume "i < j"
      then have "Suc i < k" using Suc by simp
      then show "\<exists>q. unpack_edge (py_split (nth_line f' i)) = Inr q"
        using Cons.prems(2) rl by (auto simp: nth_line_Suc)
    qed
    have bad: "unpack_edge (py_split (nth_line f' j)) = Inl e"
      using Cons.prems(3) Suc rl by (simp add: nth_line_Suc)
    from Cons.IH [OF j before bad, of "acc @ [q]"] show ?thesis
      using rl first by simp
  qed
qed

lemma read_array_of_edges_lines:
  "read_array_of_edges f =
     (case py_int (nth_line f 0) of
        Inl e \<Rightarrow> Inl e
      | Inr nv \<Rightarrow>
          if nv < 0 then Inl (ValueError NegativeCount)
          else
            (case py_int (nth_line f 1) of
               Inl e \<Rightarrow> Inl e
             | Inr ne \<Rightarrow>
                 if ne < 0 then Inl (ValueError NegativeCount)
                 else
                   (case read_edges (py_range ne) (snd (readline (snd (readline f)))) [] of
                      Inl e \<Rightarrow> Inl e
                    | Inr edges \<Rightarrow> Inr (edges, nv))))"
  by (auto simp: read_array_of_edges_def nth_line_def split: prod.splits sum.splits)

lemma read_array_of_edges_nonneg:
  "read_array_of_edges f = Inr (es, n) \<Longrightarrow> 0 \<le> n"
  by (auto simp: read_array_of_edges_lines split: sum.splits if_splits)
text \<open>
  Claim C6. The reader takes the first line as V and the second as E, then E edge lines.
  It fails with \<open>InvalidFormat\<close> when the parsed V is negative, and when the parsed E is
  negative; it fails with \<open>ParseError\<close> when the V line or the E line is no integer
  literal, and when one of the E edge lines is not a line of exactly two integer literals
  (a line missing at the end of the file is such a line), the error being that of the
  first such line. When V and E are non-negative and the E edge lines are well formed, it
  returns exactly the E pairs in the order of the lines, with V; no condition on the
  values of the pairs is involved, and a pair out of range such as (5, -7) for V = 1 is
  returned.
\<close>

theorem read_array_of_edges_outcomes:
  "(py_int (nth_line f 0) = Inl e \<longrightarrow> read_array_of_edges f = Inl e \<and> ParseError e) \<and>
   (py_int (nth_line f 0) = Inr nv \<and> nv < 0 \<longrightarrow>
      (\<exists>e'. read_array_of_edges f = Inl e' \<and> InvalidFormat e')) \<and>
   (py_int (nth_line f 0) = Inr nv \<and> 0 \<le> nv \<and> py_int (nth_line f 1) = Inl e \<longrightarrow>
      read_array_of_edges f = Inl e \<and> ParseError e) \<and>
   (py_int (nth_line f 0) = Inr nv \<and> py_int (nth_line f 1) = Inr ne \<and> ne < 0 \<longrightarrow>
      (\<exists>e'. read_array_of_edges f = Inl e' \<and> InvalidFormat e')) \<and>
   (py_int (nth_line f 0) = Inr nv \<and> 0 \<le> nv \<and> py_int (nth_line f 1) = Inr ne \<and> 0 \<le> ne \<and>
    k < nat ne \<and> (\<forall>i < k. \<exists>q. unpack_edge (py_split (nth_line f (2 + i))) = Inr q) \<and>
    unpack_edge (py_split (nth_line f (2 + k))) = Inl e \<longrightarrow>
      read_array_of_edges f = Inl e \<and> ParseError e) \<and>
   (py_int (nth_line f 0) = Inr nv \<and> 0 \<le> nv \<and> py_int (nth_line f 1) = Inr ne \<and> 0 \<le> ne \<and>
    (\<forall>k < nat ne. unpack_edge (py_split (nth_line f (2 + k))) = Inr (p k)) \<longrightarrow>
      read_array_of_edges f = Inr (map p [0..<nat ne], nv) \<and>
      int (length (map p [0..<nat ne])) = ne) \<and>
   read_array_of_edges ''1\<newline>1\<newline>5 -7\<newline>'' = Inr ([(5, - 7)], 1)"
proof (intro conjI impI)
  assume "py_int (nth_line f 0) = Inl e"
  then show "read_array_of_edges f = Inl e" "ParseError e"
    by (auto simp: read_array_of_edges_lines dest: py_int_ParseError)
next
  assume "py_int (nth_line f 0) = Inr nv \<and> nv < 0"
  then have "read_array_of_edges f = Inl (ValueError NegativeCount)"
    by (simp add: read_array_of_edges_lines)
  then show "\<exists>e'. read_array_of_edges f = Inl e' \<and> InvalidFormat e'" by simp
next
  assume a: "py_int (nth_line f 0) = Inr nv \<and> 0 \<le> nv \<and> py_int (nth_line f 1) = Inl e"
  then show "read_array_of_edges f = Inl e" by (simp add: read_array_of_edges_lines)
  from a show "ParseError e" by (auto dest: py_int_ParseError)
next
  assume "py_int (nth_line f 0) = Inr nv \<and> py_int (nth_line f 1) = Inr ne \<and> ne < 0"
  then have "read_array_of_edges f = Inl (ValueError NegativeCount)"
    by (simp add: read_array_of_edges_lines)
  then show "\<exists>e'. read_array_of_edges f = Inl e' \<and> InvalidFormat e'" by simp
next
  assume a: "py_int (nth_line f 0) = Inr nv \<and> 0 \<le> nv \<and> py_int (nth_line f 1) = Inr ne \<and> 0 \<le> ne \<and>
    k < nat ne \<and> (\<forall>i < k. \<exists>q. unpack_edge (py_split (nth_line f (2 + i))) = Inr q) \<and>
    unpack_edge (py_split (nth_line f (2 + k))) = Inl e"
  let ?f2 = "snd (readline (snd (readline f)))"
  have "read_edges (py_range ne) ?f2 [] = Inl e"
    by (rule read_edges_first_bad [of k]) (use a in \<open>simp_all add: nth_line_edges\<close>)
  then show "read_array_of_edges f = Inl e" using a by (simp add: read_array_of_edges_lines)
  from a show "ParseError e" by (auto dest: unpack_edge_ParseError)
next
  assume a: "py_int (nth_line f 0) = Inr nv \<and> 0 \<le> nv \<and> py_int (nth_line f 1) = Inr ne \<and> 0 \<le> ne \<and>
    (\<forall>k < nat ne. unpack_edge (py_split (nth_line f (2 + k))) = Inr (p k))"
  let ?f2 = "snd (readline (snd (readline f)))"
  have "read_edges (py_range ne) ?f2 [] = Inr ([] @ map p [0..<length (py_range ne)])"
    by (rule read_edges_all) (use a in \<open>simp add: nth_line_edges\<close>)
  then show "read_array_of_edges f = Inr (map p [0..<nat ne], nv)"
    using a by (simp add: read_array_of_edges_lines)
  from a show "int (length (map p [0..<nat ne])) = ne" by simp
next
  show "read_array_of_edges ''1\<newline>1\<newline>5 -7\<newline>'' = Inr ([(5, - 7)], 1)"
    by code_simp
qed

theorem read_array_of_edges_outcomes_witness:
  "read_array_of_edges ''3\<newline>2\<newline>0 1\<newline>1 2\<newline>'' = Inr ([(0, 1), (1, 2)], 3) \<and>
   read_array_of_edges ''2\<newline>2\<newline>0 1\<newline>'' = Inl (ValueError (NotEnoughValues 0)) \<and>
   ParseError (ValueError (NotEnoughValues 0)) \<and>
   (\<exists>e. read_array_of_edges ''-1\<newline>0\<newline>'' = Inl e \<and> InvalidFormat e) \<and>
   (\<exists>e. read_array_of_edges ''1\<newline>-4\<newline>'' = Inl e \<and> InvalidFormat e) \<and>
   read_array_of_edges ''1\<newline>1.5\<newline>'' = Inl (ValueError (InvalidLiteral ''1.5\<newline>''))"
proof -
  let ?f = "''3\<newline>2\<newline>0 1\<newline>1 2\<newline>''"
  let ?p = "\<lambda>k. [(0, 1), (1, 2)] ! k :: int \<times> int"
  have f0: "py_int (nth_line ?f 0) = Inr 3" and f1: "py_int (nth_line ?f 1) = Inr 2"
    and f2: "unpack_edge (py_split (nth_line ?f (2 + 0))) = Inr (?p 0)"
    and f3: "unpack_edge (py_split (nth_line ?f (2 + 1))) = Inr (?p 1)"
    by code_simp+
  have fl: "\<forall>k < nat 2. unpack_edge (py_split (nth_line ?f (2 + k))) = Inr (?p k)"
  proof (intro allI impI)
    fix k :: nat
    assume "k < nat 2"
    then have "k = 0 \<or> k = 1" by auto
    then show "unpack_edge (py_split (nth_line ?f (2 + k))) = Inr (?p k)"
      using f2 f3 by blast
  qed
  have ok: "read_array_of_edges ?f = Inr ([(0, 1), (1, 2)], 3)"
    using read_array_of_edges_outcomes [where f = ?f and nv = 3 and ne = 2 and p = ?p,
        THEN conjunct2, THEN conjunct2, THEN conjunct2, THEN conjunct2, THEN conjunct2,
        THEN conjunct1] f0 f1 fl
    by (simp add: upt_rec)
  let ?b = "''2\<newline>2\<newline>0 1\<newline>''"
  have b0: "py_int (nth_line ?b 0) = Inr 2" and b1: "py_int (nth_line ?b 1) = Inr 2"
    and b2: "unpack_edge (py_split (nth_line ?b 2)) = Inr (0, 1)"
    and b3: "unpack_edge (py_split (nth_line ?b 3)) = Inl (ValueError (NotEnoughValues 0))"
    by code_simp+
  have short: "read_array_of_edges ?b = Inl (ValueError (NotEnoughValues 0)) \<and>
      ParseError (ValueError (NotEnoughValues 0))"
    using read_array_of_edges_outcomes [where f = ?b and nv = 2 and ne = 2 and k = 1
        and e = "ValueError (NotEnoughValues 0)",
        THEN conjunct2, THEN conjunct2, THEN conjunct2, THEN conjunct2, THEN conjunct1]
      b0 b1 b2 b3
    by simp
  have n0: "py_int (nth_line ''-1\<newline>0\<newline>'' 0) = Inr (- 1)" by code_simp
  have negv: "\<exists>e. read_array_of_edges ''-1\<newline>0\<newline>'' = Inl e \<and> InvalidFormat e"
    using read_array_of_edges_outcomes [where f = "''-1\<newline>0\<newline>''" and nv = "- 1",
        THEN conjunct2, THEN conjunct1] n0
    by simp
  have e0: "py_int (nth_line ''1\<newline>-4\<newline>'' 0) = Inr 1"
    and e1: "py_int (nth_line ''1\<newline>-4\<newline>'' 1) = Inr (- 4)"
    by code_simp+
  have nege: "\<exists>e. read_array_of_edges ''1\<newline>-4\<newline>'' = Inl e \<and> InvalidFormat e"
    using read_array_of_edges_outcomes [where f = "''1\<newline>-4\<newline>''" and nv = 1 and ne = "- 4",
        THEN conjunct2, THEN conjunct2, THEN conjunct2, THEN conjunct1] e0 e1
    by simp
  have m0: "py_int (nth_line ''1\<newline>1.5\<newline>'' 0) = Inr 1"
    and m1: "py_int (nth_line ''1\<newline>1.5\<newline>'' 1) = Inl (ValueError (InvalidLiteral ''1.5\<newline>''))"
    by code_simp+
  have mal: "read_array_of_edges ''1\<newline>1.5\<newline>'' = Inl (ValueError (InvalidLiteral ''1.5\<newline>''))"
    using read_array_of_edges_outcomes [where f = "''1\<newline>1.5\<newline>''" and nv = 1
        and e = "ValueError (InvalidLiteral ''1.5\<newline>'')",
        THEN conjunct2, THEN conjunct2, THEN conjunct1] m0 m1
    by simp
  show ?thesis using ok short negv nege mal by simp
qed
subsection \<open>Loading a graph\<close>

lemma Graph_load_read:
  assumes "read_array_of_edges f = Inr (es, n)"
  shows "Graph_load f =
     (case add_edges Graph_add_edge \<lparr>V = n, E = 0, adj = replicate (nat n) []\<rparr> es of
        (Inl e, _) \<Rightarrow> Inl e
      | (Inr _, g') \<Rightarrow> Inr g')"
  using assms by (simp add: Graph_load_def load_def Graph_init_eq)

lemma AdjMatrixGraph_load_read:
  assumes "read_array_of_edges f = Inr (es, n)"
  shows "AdjMatrixGraph_load f =
     (case add_edges AdjMatrixGraph_add_edge
             \<lparr>V = n, E = 0, adj = replicate (nat n) (replicate (nat n) False)\<rparr> es of
        (Inl e, _) \<Rightarrow> Inl e
      | (Inr _, m') \<Rightarrow> Inr m')"
  using assms read_array_of_edges_nonneg [OF assms]
  by (simp add: AdjMatrixGraph_load_def load_def AdjMatrixGraph_init_eq)

lemma load_ok:
  assumes rd: "read_array_of_edges f = Inr (es, n)" and r: "\<forall>e \<in> set es. in_range n e"
  shows "(\<exists>g. Graph_load f = Inr g \<and> V g = n \<and> E g = int (length es) \<and>
            length (adj g) = nat n \<and>
            (\<forall>u < nat n. adj g ! u = concat (map (incident (int u)) es))) \<and>
         (\<exists>m. AdjMatrixGraph_load f = Inr m \<and> V m = n \<and> E m = int (length es) \<and> square m \<and>
            (\<forall>i j. i < nat n \<and> j < nat n \<longrightarrow>
               adj m ! i ! j = ((int i, int j) \<in> set es \<or> (int j, int i) \<in> set es)))"
proof
  let ?g = "\<lparr>V = n, E = 0, adj = replicate (nat n) []\<rparr> :: list_graph"
  have wf: "length (adj ?g) = nat (V ?g)" by simp
  have r': "\<forall>e \<in> set es. in_range (V ?g) e" using r by simp
  from Graph_add_edges_run [OF wf r']
  obtain g' where "add_edges Graph_add_edge ?g es = (Inr (), g')" "V g' = n"
    "E g' = int (length es)" "length (adj g') = nat n"
    "\<forall>u < nat n. adj g' ! u = concat (map (incident (int u)) es)"
    by auto
  then show "\<exists>g. Graph_load f = Inr g \<and> V g = n \<and> E g = int (length es) \<and>
            length (adj g) = nat n \<and>
            (\<forall>u < nat n. adj g ! u = concat (map (incident (int u)) es))"
    by (simp add: Graph_load_read [OF rd])
next
  let ?m = "\<lparr>V = n, E = 0, adj = replicate (nat n) (replicate (nat n) False)\<rparr> :: matrix_graph"
  have n: "0 \<le> n" using rd by (rule read_array_of_edges_nonneg)
  have sq: "square ?m" using n by (rule square_fresh)
  have r': "\<forall>e \<in> set es. in_range (V ?m) e" using r by simp
  from AdjMatrixGraph_add_edges_run [OF sq r']
  obtain m' where "add_edges AdjMatrixGraph_add_edge ?m es = (Inr (), m')" "V m' = n"
    "E m' = int (length es)" "square m'"
    "\<forall>i j. i < nat n \<and> j < nat n \<longrightarrow>
       adj m' ! i ! j = ((int i, int j) \<in> set es \<or> (int j, int i) \<in> set es)"
    by auto
  then show "\<exists>m. AdjMatrixGraph_load f = Inr m \<and> V m = n \<and> E m = int (length es) \<and> square m \<and>
            (\<forall>i j. i < nat n \<and> j < nat n \<longrightarrow>
               adj m ! i ! j = ((int i, int j) \<in> set es \<or> (int j, int i) \<in> set es))"
    by (simp add: AdjMatrixGraph_load_read [OF rd])
qed

lemma load_bad:
  assumes rd: "read_array_of_edges f = Inr (pre @ (v, w) # post, n)"
    and pre: "\<forall>e \<in> set pre. in_range n e" and bad: "\<not> in_range n (v, w)"
  shows "Graph_load f = Inl (ValueError (VertexNotBetween (if v < 0 \<or> n \<le> v then v else w) (n - 1))) \<and>
         AdjMatrixGraph_load f = Inl (ValueError (VertexNotBetween (if v < 0 \<or> n \<le> v then v else w) (n - 1)))"
proof
  let ?g = "\<lparr>V = n, E = 0, adj = replicate (nat n) []\<rparr> :: list_graph"
  have "fst (add_edges Graph_add_edge ?g (pre @ (v, w) # post)) =
      Inl (ValueError (VertexNotBetween (if v < 0 \<or> V ?g \<le> v then v else w) (V ?g - 1)))"
    by (rule Graph_add_edges_first_bad) (use pre bad in simp_all)
  then show "Graph_load f = Inl (ValueError (VertexNotBetween (if v < 0 \<or> n \<le> v then v else w) (n - 1)))"
    by (cases "add_edges Graph_add_edge ?g (pre @ (v, w) # post)") (simp add: Graph_load_read [OF rd])
next
  let ?m = "\<lparr>V = n, E = 0, adj = replicate (nat n) (replicate (nat n) False)\<rparr> :: matrix_graph"
  have n: "0 \<le> n" using rd by (rule read_array_of_edges_nonneg)
  have sq: "square ?m" using n by (rule square_fresh)
  have "fst (add_edges AdjMatrixGraph_add_edge ?m (pre @ (v, w) # post)) =
      Inl (ValueError (VertexNotBetween (if v < 0 \<or> V ?m \<le> v then v else w) (V ?m - 1)))"
    by (rule AdjMatrixGraph_add_edges_first_bad [OF sq]) (use pre bad in simp_all)
  then show "AdjMatrixGraph_load f = Inl (ValueError (VertexNotBetween (if v < 0 \<or> n \<le> v then v else w) (n - 1)))"
    by (cases "add_edges AdjMatrixGraph_add_edge ?m (pre @ (v, w) # post)")
       (simp add: AdjMatrixGraph_load_read [OF rd])
qed

lemma load_read_error:
  "read_array_of_edges f = Inl e \<Longrightarrow> Graph_load f = Inl e \<and> AdjMatrixGraph_load f = Inl e"
  by (simp add: Graph_load_def AdjMatrixGraph_load_def load_def)
text \<open>
  Claim C5. \<^verbatim>\<open>load\<close> runs the reader and then \<^verbatim>\<open>add_edge\<close> once for each pair, in the
  order of the lines. An error of the reader is the error of \<^verbatim>\<open>load\<close>. When every pair
  is in range, \<^verbatim>\<open>load\<close> returns a graph with the V of the file and E the number of pairs,
  in which the list of vertex u holds, in the order of the lines, what each pair appends
  for u (in the matrix: cell (i, j) is set if and only if a pair names i and j). When a
  pair is out of range, \<^verbatim>\<open>load\<close> fails with the \<^verbatim>\<open>ValueError\<close> that \<^verbatim>\<open>add_edge\<close> raises
  for the first such pair. Loading the text with V = 3, E = 2 and the lines "0 1" and
  "1 2" gives E = 2, degrees 1, 2 and 1, and no self-loop, in both variants.
\<close>

theorem load_builds_graph:
  "(read_array_of_edges f = Inl e \<longrightarrow> Graph_load f = Inl e \<and> AdjMatrixGraph_load f = Inl e) \<and>
   (read_array_of_edges f = Inr (es, n) \<and> (\<forall>c \<in> set es. in_range n c) \<longrightarrow>
      (\<exists>g. Graph_load f = Inr g \<and> V g = n \<and> E g = int (length es) \<and>
            length (adj g) = nat n \<and>
            (\<forall>u < nat n. adj g ! u = concat (map (incident (int u)) es))) \<and>
      (\<exists>m. AdjMatrixGraph_load f = Inr m \<and> V m = n \<and> E m = int (length es) \<and> square m \<and>
            (\<forall>i j. i < nat n \<and> j < nat n \<longrightarrow>
               adj m ! i ! j = ((int i, int j) \<in> set es \<or> (int j, int i) \<in> set es)))) \<and>
   (read_array_of_edges f = Inr (pre @ (v, w) # post, n) \<and> (\<forall>c \<in> set pre. in_range n c) \<and>
    \<not> in_range n (v, w) \<longrightarrow>
      Graph_load f =
        Inl (ValueError (VertexNotBetween (if v < 0 \<or> n \<le> v then v else w) (n - 1))) \<and>
      AdjMatrixGraph_load f =
        Inl (ValueError (VertexNotBetween (if v < 0 \<or> n \<le> v then v else w) (n - 1)))) \<and>
   (\<exists>g. Graph_load ''3\<newline>2\<newline>0 1\<newline>1 2\<newline>'' = Inr g \<and> E g = 2 \<and>
        Graph_degree g 0 = Inr 1 \<and> Graph_degree g 1 = Inr 2 \<and> Graph_degree g 2 = Inr 1 \<and>
        Graph_self_loops g = Inr 0) \<and>
   (\<exists>m. AdjMatrixGraph_load ''3\<newline>2\<newline>0 1\<newline>1 2\<newline>'' = Inr m \<and> E m = 2 \<and>
        AdjMatrixGraph_degree m 0 = Inr 1 \<and> AdjMatrixGraph_degree m 1 = Inr 2 \<and>
        AdjMatrixGraph_degree m 2 = Inr 1 \<and> AdjMatrixGraph_self_loops m = Inr 0)"
proof (intro conjI impI)
  assume "read_array_of_edges f = Inl e"
  then show "Graph_load f = Inl e" "AdjMatrixGraph_load f = Inl e"
    using load_read_error by simp_all
next
  assume a: "read_array_of_edges f = Inr (es, n) \<and> (\<forall>c \<in> set es. in_range n c)"
  then have rd: "read_array_of_edges f = Inr (es, n)" and r: "\<forall>c \<in> set es. in_range n c"
    by simp_all
  from load_ok [OF rd r]
  show "\<exists>g. Graph_load f = Inr g \<and> V g = n \<and> E g = int (length es) \<and>
            length (adj g) = nat n \<and>
            (\<forall>u < nat n. adj g ! u = concat (map (incident (int u)) es))"
    and "\<exists>m. AdjMatrixGraph_load f = Inr m \<and> V m = n \<and> E m = int (length es) \<and> square m \<and>
            (\<forall>i j. i < nat n \<and> j < nat n \<longrightarrow>
               adj m ! i ! j = ((int i, int j) \<in> set es \<or> (int j, int i) \<in> set es))"
    by simp_all
next
  assume a: "read_array_of_edges f = Inr (pre @ (v, w) # post, n) \<and> (\<forall>c \<in> set pre. in_range n c) \<and>
    \<not> in_range n (v, w)"
  then have rd: "read_array_of_edges f = Inr (pre @ (v, w) # post, n)"
    and pre: "\<forall>c \<in> set pre. in_range n c" and bad: "\<not> in_range n (v, w)"
    by simp_all
  from load_bad [OF rd pre bad]
  show "Graph_load f =
        Inl (ValueError (VertexNotBetween (if v < 0 \<or> n \<le> v then v else w) (n - 1)))"
    and "AdjMatrixGraph_load f =
        Inl (ValueError (VertexNotBetween (if v < 0 \<or> n \<le> v then v else w) (n - 1)))"
    by simp_all
next
  have l: "Graph_load ''3\<newline>2\<newline>0 1\<newline>1 2\<newline>'' = Inr \<lparr>V = 3, E = 2, adj = [[1], [0, 2], [1]]\<rparr>"
    by code_simp
  have "Graph_degree \<lparr>V = 3, E = 2, adj = [[1], [0, 2], [1]]\<rparr> 0 = Inr 1"
    "Graph_degree \<lparr>V = 3, E = 2, adj = [[1], [0, 2], [1]]\<rparr> 1 = Inr 2"
    "Graph_degree \<lparr>V = 3, E = 2, adj = [[1], [0, 2], [1]]\<rparr> 2 = Inr 1"
    "Graph_self_loops \<lparr>V = 3, E = 2, adj = [[1], [0, 2], [1]]\<rparr> = Inr 0"
    by code_simp+
  with l show "\<exists>g. Graph_load ''3\<newline>2\<newline>0 1\<newline>1 2\<newline>'' = Inr g \<and> E g = 2 \<and>
        Graph_degree g 0 = Inr 1 \<and> Graph_degree g 1 = Inr 2 \<and> Graph_degree g 2 = Inr 1 \<and>
        Graph_self_loops g = Inr 0"
    by simp
next
  let ?m = "\<lparr>V = 3, E = 2, adj = [[False, True, False], [True, False, True], [False, True, False]]\<rparr>"
  have l: "AdjMatrixGraph_load ''3\<newline>2\<newline>0 1\<newline>1 2\<newline>'' = Inr ?m"
    by code_simp
  have "AdjMatrixGraph_degree ?m 0 = Inr 1" "AdjMatrixGraph_degree ?m 1 = Inr 2"
    "AdjMatrixGraph_degree ?m 2 = Inr 1" "AdjMatrixGraph_self_loops ?m = Inr 0"
    by code_simp+
  with l show "\<exists>m. AdjMatrixGraph_load ''3\<newline>2\<newline>0 1\<newline>1 2\<newline>'' = Inr m \<and> E m = 2 \<and>
        AdjMatrixGraph_degree m 0 = Inr 1 \<and> AdjMatrixGraph_degree m 1 = Inr 2 \<and>
        AdjMatrixGraph_degree m 2 = Inr 1 \<and> AdjMatrixGraph_self_loops m = Inr 0"
    by simp
qed

theorem load_builds_graph_witness:
  "read_array_of_edges ''x'' = Inl (ValueError (InvalidLiteral ''x'')) \<and>
   Graph_load ''x'' = Inl (ValueError (InvalidLiteral ''x'')) \<and>
   AdjMatrixGraph_load ''x'' = Inl (ValueError (InvalidLiteral ''x'')) \<and>
   read_array_of_edges ''3\<newline>2\<newline>0 1\<newline>1 2\<newline>'' = Inr ([(0, 1), (1, 2)], 3) \<and>
   (\<exists>g. Graph_load ''3\<newline>2\<newline>0 1\<newline>1 2\<newline>'' = Inr g \<and> V g = 3 \<and> E g = 2 \<and> length (adj g) = 3) \<and>
   (\<exists>m. AdjMatrixGraph_load ''3\<newline>2\<newline>0 1\<newline>1 2\<newline>'' = Inr m \<and> V m = 3 \<and> E m = 2 \<and> square m) \<and>
   read_array_of_edges ''3\<newline>2\<newline>0 1\<newline>1 3\<newline>'' = Inr ([(0, 1), (1, 3)], 3) \<and>
   Graph_load ''3\<newline>2\<newline>0 1\<newline>1 3\<newline>'' = Inl (ValueError (VertexNotBetween 3 2)) \<and>
   AdjMatrixGraph_load ''3\<newline>2\<newline>0 1\<newline>1 3\<newline>'' = Inl (ValueError (VertexNotBetween 3 2))"
proof -
  have r1: "read_array_of_edges ''x'' = Inl (ValueError (InvalidLiteral ''x''))"
    by code_simp
  have r2: "read_array_of_edges ''3\<newline>2\<newline>0 1\<newline>1 2\<newline>'' = Inr ([(0, 1), (1, 2)], 3)"
    by code_simp
  have r3: "read_array_of_edges ''3\<newline>2\<newline>0 1\<newline>1 3\<newline>'' = Inr ([(0, 1)] @ (1, 3) # [], 3)"
    by code_simp
  have i1: "Graph_load ''x'' = Inl (ValueError (InvalidLiteral ''x'')) \<and>
      AdjMatrixGraph_load ''x'' = Inl (ValueError (InvalidLiteral ''x''))"
    using load_builds_graph [where f = "''x''" and e = "ValueError (InvalidLiteral ''x'')",
        THEN conjunct1] r1
    by simp
  have i2: "(\<exists>g. Graph_load ''3\<newline>2\<newline>0 1\<newline>1 2\<newline>'' = Inr g \<and> V g = 3 \<and> E g = 2 \<and> length (adj g) = 3) \<and>
      (\<exists>m. AdjMatrixGraph_load ''3\<newline>2\<newline>0 1\<newline>1 2\<newline>'' = Inr m \<and> V m = 3 \<and> E m = 2 \<and> square m)"
    using load_builds_graph [where f = "''3\<newline>2\<newline>0 1\<newline>1 2\<newline>''" and es = "[(0, 1), (1, 2)]" and n = 3,
        THEN conjunct2, THEN conjunct1] r2
    by (auto simp: in_range_def)
  have i3: "Graph_load ''3\<newline>2\<newline>0 1\<newline>1 3\<newline>'' = Inl (ValueError (VertexNotBetween 3 2)) \<and>
      AdjMatrixGraph_load ''3\<newline>2\<newline>0 1\<newline>1 3\<newline>'' = Inl (ValueError (VertexNotBetween 3 2))"
    using load_builds_graph [where f = "''3\<newline>2\<newline>0 1\<newline>1 3\<newline>''" and pre = "[(0, 1)]" and v = 1 and w = 3
          and post = "[]" and n = 3, THEN conjunct2, THEN conjunct2, THEN conjunct1] r3
    by (simp add: in_range_def)
  show ?thesis using r1 r2 r3 i1 i2 i3 by simp
qed

end
